theory Spec2Isabelle
  imports Complex_Main
begin

section \<open>Data model\<close>

text \<open>
  The three tables of the migration \<^verbatim>\<open>001_create_collections_schema.sql\<close>.
  A table is the list of its rows. Identifiers (\<^verbatim>\<open>uuid\<close>) and timestamps
  (\<^verbatim>\<open>timestamptz\<close>, written by the handlers as ISO strings) are natural numbers.
  Of \<^verbatim>\<open>divine_words\<close> only the columns the handlers select are kept.
  An \<^verbatim>\<open>integer\<close> column holds a 32-bit signed integer: a row is written with
  mathematical integers, and a write that carries a value outside that range is refused
  (see \<open>int32\<close> below). \<^verbatim>\<open>highest_score\<close> and \<^verbatim>\<open>last_spin_at\<close> are nullable, because
  the handler can store \<^verbatim>\<open>null\<close> in the former and the schema gives the latter no
  default.
\<close>

type_synonym uuid = nat
type_synonym timestamp = nat

record divine_word =
  dw_id :: uuid
  dw_word :: string
  dw_rarity :: string

record user_collection =
  uc_id :: uuid
  uc_user_id :: uuid
  uc_divine_word_id :: uuid
  uc_found_count :: int
  uc_first_found_at :: timestamp
  uc_updated_at :: timestamp

record user_statistic =
  us_id :: uuid
  us_user_id :: uuid
  us_total_spins :: int
  us_total_points :: int
  us_divine_count :: int
  us_reality_count :: int
  us_collection_completion :: int
  us_highest_score :: "int option"
  us_last_spin_at :: "timestamp option"
  us_created_at :: timestamp
  us_updated_at :: timestamp

record database =
  divine_words :: "divine_word list"
  user_collections :: "user_collection list"
  user_statistics :: "user_statistic list"

text \<open>The range of a Postgres \<^verbatim>\<open>integer\<close>.\<close>

definition int32 :: "int \<Rightarrow> bool" where
  "int32 n \<longleftrightarrow> - 2147483648 \<le> n \<and> n \<le> 2147483647"

subsection \<open>JavaScript values met by the score\<close>

text \<open>
  \<^verbatim>\<open>score\<close> is a number or, when the body has no such field, \<^verbatim>\<open>undefined\<close>;
  \<^verbatim>\<open>stats.highest_score\<close> read back from the table is a number or \<^verbatim>\<open>null\<close>;
  \<^verbatim>\<open>Math.max\<close> converts both with ToNumber and gives \<^verbatim>\<open>NaN\<close> as soon as one
  of them is \<^verbatim>\<open>NaN\<close>.
\<close>

datatype jsval = JUndefined | JNull | JNaN | JNum int

fun ToNumber :: "jsval \<Rightarrow> jsval" where
  "ToNumber JUndefined = JNaN"
| "ToNumber JNull = JNum 0"
| "ToNumber JNaN = JNaN"
| "ToNumber (JNum n) = JNum n"

definition Math_max :: "jsval \<Rightarrow> jsval \<Rightarrow> jsval" where
  "Math_max a b =
     (case ToNumber a of
        JNum x \<Rightarrow> (case ToNumber b of JNum y \<Rightarrow> JNum (max x y) | _ \<Rightarrow> JNaN)
      | _ \<Rightarrow> JNaN)"

text \<open>A field of the parsed body (absent is \<^verbatim>\<open>undefined\<close>) and a nullable column read
  from a row, as JavaScript values.\<close>

definition of_field :: "int option \<Rightarrow> jsval" where
  "of_field v = (case v of None \<Rightarrow> JUndefined | Some n \<Rightarrow> JNum n)"

definition of_column :: "int option \<Rightarrow> jsval" where
  "of_column v = (case v of None \<Rightarrow> JNull | Some n \<Rightarrow> JNum n)"

text \<open>
  \<^verbatim>\<open>JSON.stringify\<close> of a write's payload: a key whose value is \<^verbatim>\<open>undefined\<close> is left
  out (\<open>None\<close>), \<^verbatim>\<open>NaN\<close> and \<^verbatim>\<open>null\<close> are written \<^verbatim>\<open>null\<close> (\<open>Some None\<close>).
\<close>

fun stringify :: "jsval \<Rightarrow> int option option" where
  "stringify JUndefined = None"
| "stringify JNull = Some None"
| "stringify JNaN = Some None"
| "stringify (JNum n) = Some (Some n)"

text \<open>
  What a nullable \<^verbatim>\<open>integer\<close> column accepts of a serialised value: a missing key,
  \<^verbatim>\<open>null\<close>, or a number in range.
\<close>

definition json_int32 :: "jsval \<Rightarrow> bool" where
  "json_int32 v = (case stringify v of Some (Some n) \<Rightarrow> int32 n | _ \<Rightarrow> True)"

subsection \<open>Requests, responses, environment\<close>

text \<open>
  \<^verbatim>\<open>interface TrackResultRequest\<close>: each field is what the interface declares or absent.
  A body is \<open>Malformed\<close> when \<^verbatim>\<open>req.json()\<close> rejects, \<open>BodyNull\<close> when it parses to
  \<^verbatim>\<open>null\<close> (destructuring it throws); any other JSON value is the object of its fields.
\<close>

record TrackResultRequest =
  type :: "string option"
  word :: "string option"
  score :: "int option"

datatype request_body = Malformed | BodyNull | Body TrackResultRequest

record request =
  http_method :: string
  authorization :: "string option"
  body :: request_body

record auth_response =
  user :: "uuid option"
  error :: "string option"

text \<open>
  What a handler reads and does not change: the two environment variables, the identity
  provider behind \<^verbatim>\<open>client.auth.getUser\<close>, and the wall clock, of which the \<open>n\<close>-th
  \<^verbatim>\<open>new Date()\<close> reads \<open>clock n\<close>. A configured \<^verbatim>\<open>SUPABASE_URL\<close> is taken to be a
  URL that \<^verbatim>\<open>createClient\<close> accepts.
\<close>

record environment =
  SUPABASE_URL :: "string option"
  SUPABASE_SERVICE_ROLE_KEY :: "string option"
  getUser :: "string \<Rightarrow> auth_response"
  clock :: "nat \<Rightarrow> timestamp"

text \<open>Payloads of the four writes, as the object literals of the source.\<close>

record collection_update =
  cu_found_count :: int
  cu_updated_at :: timestamp

record collection_insert =
  ci_user_id :: uuid
  ci_divine_word_id :: uuid
  ci_found_count :: int
  ci_first_found_at :: timestamp
  ci_updated_at :: timestamp

record statistics_update =
  su_total_spins :: int
  su_total_points :: int
  su_divine_count :: int
  su_reality_count :: int
  su_highest_score :: jsval
  su_last_spin_at :: timestamp
  su_updated_at :: timestamp

record statistics_insert =
  si_user_id :: uuid
  si_total_spins :: int
  si_total_points :: int
  si_divine_count :: int
  si_reality_count :: int
  si_highest_score :: jsval
  si_last_spin_at :: timestamp
  si_created_at :: timestamp
  si_updated_at :: timestamp

text \<open>Every call a handler makes through the client, in the order made.\<close>

datatype call =
    AuthGetUser string
  | SelectDivineWord string
  | SelectUserCollection uuid uuid
  | UpdateUserCollection uuid collection_update
  | InsertUserCollection collection_insert
  | SelectUserStatistics uuid
  | UpdateUserStatistics uuid statistics_update
  | InsertUserStatistics statistics_insert
  | SelectUserCollections uuid
  | SelectDivineWords

record state =
  db :: database
  next_id :: uuid
  ticks :: nat
  calls :: "call list"

section \<open>The database client\<close>

text \<open>
  \<^verbatim>\<open>.maybeSingle()\<close>: the row when exactly one matches, \<^verbatim>\<open>null\<close> when none does, and an
  error whose \<^verbatim>\<open>data\<close> is \<^verbatim>\<open>null\<close> when several do. The handlers read \<^verbatim>\<open>data\<close> only.
\<close>

fun maybeSingle :: "'a list \<Rightarrow> 'a option" where
  "maybeSingle [r] = Some r"
| "maybeSingle _ = None"

definition called :: "call \<Rightarrow> state \<Rightarrow> state" where
  "called c s = s\<lparr>calls := calls s @ [c]\<rparr>"

text \<open>\<^verbatim>\<open>new Date().toISOString()\<close>: one reading of the clock.\<close>

definition now :: "environment \<Rightarrow> state \<Rightarrow> timestamp \<times> state" where
  "now e s = (clock e (ticks s), s\<lparr>ticks := Suc (ticks s)\<rparr>)"

definition auth_getUser :: "environment \<Rightarrow> string \<Rightarrow> state \<Rightarrow> auth_response \<times> state" where
  "auth_getUser e token s = (getUser e token, called (AuthGetUser token) s)"

text \<open>\<^verbatim>\<open>from("divine_words").select("id").eq("word", word).maybeSingle()\<close>\<close>

definition select_divine_word :: "string \<Rightarrow> state \<Rightarrow> divine_word option \<times> state" where
  "select_divine_word w s =
     (maybeSingle (filter (\<lambda>r. dw_word r = w) (divine_words (db s))),
      called (SelectDivineWord w) s)"

text \<open>\<^verbatim>\<open>from("user_collections").select("id, found_count").eq("user_id", ..).eq("divine_word_id", ..).maybeSingle()\<close>\<close>

definition select_user_collection ::
  "uuid \<Rightarrow> uuid \<Rightarrow> state \<Rightarrow> user_collection option \<times> state" where
  "select_user_collection uid wid s =
     (maybeSingle (filter (\<lambda>r. uc_user_id r = uid \<and> uc_divine_word_id r = wid)
                     (user_collections (db s))),
      called (SelectUserCollection uid wid) s)"

text \<open>
  \<^verbatim>\<open>from("user_collections").update({..}).eq("id", id)\<close>. A count outside the
  column's range or against the table's \<^verbatim>\<open>CHECK (found_count > 0)\<close> makes the database
  refuse the statement; the handler does not look at the error, so a refused write
  leaves the table as it was and the handler goes on.
\<close>

definition update_user_collection :: "uuid \<Rightarrow> collection_update \<Rightarrow> state \<Rightarrow> state" where
  "update_user_collection rid p s =
     (let s' = called (UpdateUserCollection rid p) s in
      if int32 (cu_found_count p) \<and> cu_found_count p > 0
      then s'\<lparr>db := (db s')\<lparr>user_collections :=
             map (\<lambda>r. if uc_id r = rid
                       then r\<lparr>uc_found_count := cu_found_count p, uc_updated_at := cu_updated_at p\<rparr>
                       else r)
                 (user_collections (db s'))\<rparr>\<rparr>
      else s')"

text \<open>
  \<^verbatim>\<open>from("user_collections").insert({..})\<close>: \<^verbatim>\<open>id\<close> takes its default, a fresh
  identifier; the column's range, the check on \<^verbatim>\<open>found_count\<close> and
  \<^verbatim>\<open>UNIQUE(user_id, divine_word_id)\<close> refuse the row otherwise.
\<close>

definition insert_user_collection :: "collection_insert \<Rightarrow> state \<Rightarrow> state" where
  "insert_user_collection p s =
     (let s' = called (InsertUserCollection p) s in
      if int32 (ci_found_count p) \<and> ci_found_count p > 0 \<and>
         filter (\<lambda>r. uc_user_id r = ci_user_id p \<and> uc_divine_word_id r = ci_divine_word_id p)
           (user_collections (db s')) = []
      then s'\<lparr>db := (db s')\<lparr>user_collections := user_collections (db s') @
               [\<lparr>uc_id = next_id s', uc_user_id = ci_user_id p,
                 uc_divine_word_id = ci_divine_word_id p, uc_found_count = ci_found_count p,
                 uc_first_found_at = ci_first_found_at p, uc_updated_at = ci_updated_at p\<rparr>]\<rparr>,
              next_id := Suc (next_id s')\<rparr>
      else s')"

text \<open>\<^verbatim>\<open>from("user_statistics").select("*").eq("user_id", user.id).maybeSingle()\<close>\<close>

definition select_user_statistics :: "uuid \<Rightarrow> state \<Rightarrow> user_statistic option \<times> state" where
  "select_user_statistics uid s =
     (maybeSingle (filter (\<lambda>r. us_user_id r = uid) (user_statistics (db s))),
      called (SelectUserStatistics uid) s)"

text \<open>
  \<^verbatim>\<open>from("user_statistics").update({..}).eq("id", id)\<close>: a key that the serialised
  payload lacks leaves its column alone, \<^verbatim>\<open>null\<close> empties it. A value outside the range
  of its \<^verbatim>\<open>integer\<close> column makes the database refuse the statement, and the handler,
  which does not look at the error, goes on with the row as it was.
\<close>

definition update_user_statistics :: "uuid \<Rightarrow> statistics_update \<Rightarrow> state \<Rightarrow> state" where
  "update_user_statistics rid p s =
     (let s' = called (UpdateUserStatistics rid p) s in
      if int32 (su_total_spins p) \<and> int32 (su_total_points p) \<and>
         int32 (su_divine_count p) \<and> int32 (su_reality_count p) \<and>
         json_int32 (su_highest_score p)
      then
      s'\<lparr>db := (db s')\<lparr>user_statistics :=
            map (\<lambda>r. if us_id r = rid
                      then r\<lparr>us_total_spins := su_total_spins p,
                             us_total_points := su_total_points p,
                             us_divine_count := su_divine_count p,
                             us_reality_count := su_reality_count p,
                             us_highest_score :=
                               (case stringify (su_highest_score p) of
                                  None \<Rightarrow> us_highest_score r | Some v \<Rightarrow> v),
                             us_last_spin_at := Some (su_last_spin_at p),
                             us_updated_at := su_updated_at p\<rparr>
                      else r)
                (user_statistics (db s'))\<rparr>\<rparr>
      else s')"

text \<open>
  \<^verbatim>\<open>from("user_statistics").insert({..})\<close>: \<^verbatim>\<open>id\<close> and \<^verbatim>\<open>collection_completion\<close>
  take their defaults, and so does \<^verbatim>\<open>highest_score\<close> (\<^verbatim>\<open>DEFAULT 0\<close>) when the
  serialised payload lacks the key; a value outside the range of its \<^verbatim>\<open>integer\<close> column
  and \<^verbatim>\<open>UNIQUE\<close> on \<^verbatim>\<open>user_id\<close> refuse the row.
\<close>

definition insert_user_statistics :: "statistics_insert \<Rightarrow> state \<Rightarrow> state" where
  "insert_user_statistics p s =
     (let s' = called (InsertUserStatistics p) s in
      if int32 (si_total_spins p) \<and> int32 (si_total_points p) \<and>
         int32 (si_divine_count p) \<and> int32 (si_reality_count p) \<and>
         json_int32 (si_highest_score p) \<and>
         filter (\<lambda>r. us_user_id r = si_user_id p) (user_statistics (db s')) = []
      then s'\<lparr>db := (db s')\<lparr>user_statistics := user_statistics (db s') @
               [\<lparr>us_id = next_id s', us_user_id = si_user_id p,
                 us_total_spins = si_total_spins p, us_total_points = si_total_points p,
                 us_divine_count = si_divine_count p, us_reality_count = si_reality_count p,
                 us_collection_completion = 0,
                 us_highest_score =
                   (case stringify (si_highest_score p) of None \<Rightarrow> Some 0 | Some v \<Rightarrow> v),
                 us_last_spin_at = Some (si_last_spin_at p),
                 us_created_at = si_created_at p, us_updated_at = si_updated_at p\<rparr>]\<rparr>,
              next_id := Suc (next_id s')\<rparr>
      else s')"

section \<open>The handlers\<close>

text \<open>
  The body of the profile reader's answer. \<open>stats\<close> is the stored row or the literal
  \<^verbatim>\<open>{total_spins: 0, total_points: 0, divine_count: 0, reality_count: 0, highest_score: 0, last_spin_at: null}\<close>;
  an item is a ledger row with its embedded \<^verbatim>\<open>divine_words\<close> object (\<^verbatim>\<open>null\<close> when
  no catalog row has that identifier).
\<close>

datatype stats_json =
    StatsRow user_statistic
  | StatsLiteral int int int int int "timestamp option"

type_synonym collection_item = "user_collection \<times> divine_word option"

record profile_json =
  stats :: stats_json
  collections_total :: nat
  collections_ssr :: nat
  collections_sr :: nat
  collections_items :: "collection_item list"
  completion_percent :: int
  completion_collected :: nat
  completion_total :: nat

datatype response_body =
    NoBody | ErrorJson string | SuccessJson string | ProfileJson profile_json

record response =
  status :: nat
  headers :: "(string \<times> string) list"
  json :: response_body

definition corsHeaders :: "(string \<times> string) list" where
  "corsHeaders =
     [(''Access-Control-Allow-Origin'', ''*''),
      (''Access-Control-Allow-Methods'', ''GET, POST, PUT, DELETE, OPTIONS''),
      (''Access-Control-Allow-Headers'', ''Content-Type, Authorization, X-Client-Info, Apikey'')]"

definition json_response :: "nat \<Rightarrow> response_body \<Rightarrow> response" where
  "json_response st b =
     \<lparr>status = st, headers = corsHeaders @ [(''Content-Type'', ''application/json'')], json = b\<rparr>"

text \<open>\<^verbatim>\<open>String.prototype.replace\<close> with a string pattern: the first occurrence only.\<close>

fun replace :: "string \<Rightarrow> string \<Rightarrow> string \<Rightarrow> string" where
  "replace [] pat rep = (if pat = [] then rep else [])"
| "replace (c # cs) pat rep =
     (if take (length pat) (c # cs) = pat then rep @ drop (length pat) (c # cs)
      else c # replace cs pat rep)"

text \<open>\<^verbatim>\<open>!x\<close> is false for a non-empty string only (absent, \<^verbatim>\<open>null\<close> and \<^verbatim>\<open>""\<close> are falsy).\<close>

fun truthy :: "string option \<Rightarrow> bool" where
  "truthy (Some (c # cs)) = True"
| "truthy _ = False"

subsection \<open>The gate (the same lines open both handlers)\<close>

definition authenticate :: "environment \<Rightarrow> request \<Rightarrow> state \<Rightarrow> (response + uuid) \<times> state" where
  "authenticate e req s =
     (case authorization req of
        None \<Rightarrow> (Inl (json_response 401 (ErrorJson ''Missing authorization header'')), s)
      | Some authHeader \<Rightarrow>
          if authHeader = []
          then (Inl (json_response 401 (ErrorJson ''Missing authorization header'')), s)
          else
            let token = replace authHeader ''Bearer '' [] in
            if \<not> truthy (SUPABASE_URL e) \<or> \<not> truthy (SUPABASE_SERVICE_ROLE_KEY e)
            then (Inl (json_response 500 (ErrorJson ''Server configuration error'')), s)
            else
              let (auth, s1) = auth_getUser e token s in
              (case (error auth, user auth) of
                 (None, Some uid) \<Rightarrow> (Inr uid, s1)
               | _ \<Rightarrow> (Inl (json_response 401 (ErrorJson ''Unauthorized'')), s1)))"

subsection \<open>Recording a spin\<close>

definition points :: "string \<Rightarrow> int" where
  "points t = (if t = ''DIVINE'' then 20 else if t = ''REALITY'' then 5 else 1)"

definition divineIncrement :: "string \<Rightarrow> int" where
  "divineIncrement t = (if t = ''DIVINE'' then 1 else 0)"

definition realityIncrement :: "string \<Rightarrow> int" where
  "realityIncrement t = (if t = ''REALITY'' then 1 else 0)"

text \<open>\<^verbatim>\<open>// Update or insert user collection\<close>\<close>

definition update_collection ::
  "environment \<Rightarrow> uuid \<Rightarrow> divine_word option \<Rightarrow> state \<Rightarrow> state" where
  "update_collection e uid divineWord s =
     (case divineWord of
        None \<Rightarrow> s
      | Some dw \<Rightarrow>
          let (existing, s1) = select_user_collection uid (dw_id dw) s in
          (case existing of
             Some ex \<Rightarrow>
               let (t, s2) = now e s1 in
               update_user_collection (uc_id ex)
                 \<lparr>cu_found_count = uc_found_count ex + 1, cu_updated_at = t\<rparr> s2
           | None \<Rightarrow>
               let (t1, s2) = now e s1; (t2, s3) = now e s2 in
               insert_user_collection
                 \<lparr>ci_user_id = uid, ci_divine_word_id = dw_id dw, ci_found_count = 1,
                  ci_first_found_at = t1, ci_updated_at = t2\<rparr> s3))"

text \<open>\<^verbatim>\<open>// Update user statistics\<close>\<close>

definition update_statistics ::
  "environment \<Rightarrow> uuid \<Rightarrow> string \<Rightarrow> int option \<Rightarrow> state \<Rightarrow> state" where
  "update_statistics e uid t sc s =
     (let (stats, s1) = select_user_statistics uid s in
      (case stats of
         Some st \<Rightarrow>
           let (t1, s2) = now e s1; (t2, s3) = now e s2 in
           update_user_statistics (us_id st)
             \<lparr>su_total_spins = us_total_spins st + 1,
              su_total_points = us_total_points st + points t,
              su_divine_count = us_divine_count st + divineIncrement t,
              su_reality_count = us_reality_count st + realityIncrement t,
              su_highest_score = Math_max (of_column (us_highest_score st)) (of_field sc),
              su_last_spin_at = t1, su_updated_at = t2\<rparr> s3
       | None \<Rightarrow>
           let (t1, s2) = now e s1; (t2, s3) = now e s2; (t3, s4) = now e s3 in
           insert_user_statistics
             \<lparr>si_user_id = uid, si_total_spins = 1, si_total_points = points t,
              si_divine_count = divineIncrement t, si_reality_count = realityIncrement t,
              si_highest_score = of_field sc,
              si_last_spin_at = t1, si_created_at = t2, si_updated_at = t3\<rparr> s4))"

text \<open>
  The handler of \<^verbatim>\<open>track-oracle-result/index.ts\<close>. Both exceptions of the body
  (\<^verbatim>\<open>req.json()\<close> rejecting, destructuring \<^verbatim>\<open>null\<close>) end in the \<^verbatim>\<open>catch\<close>.
\<close>

definition track_result :: "environment \<Rightarrow> request \<Rightarrow> state \<Rightarrow> response \<times> state" where
  "track_result e req s =
     (if http_method req = ''OPTIONS''
      then (\<lparr>status = 200, headers = corsHeaders, json = NoBody\<rparr>, s)
      else
        (case authenticate e req s of
           (Inl r, s1) \<Rightarrow> (r, s1)
         | (Inr uid, s1) \<Rightarrow>
             (case body req of
                Malformed \<Rightarrow> (json_response 500 (ErrorJson ''Internal server error''), s1)
              | BodyNull \<Rightarrow> (json_response 500 (ErrorJson ''Internal server error''), s1)
              | Body b \<Rightarrow>
                  if \<not> truthy (type b) \<or> \<not> truthy (word b)
                  then (json_response 400 (ErrorJson ''Missing required fields''), s1)
                  else
                    let t = the (type b); w = the (word b);
                        (divineWord, s2) = select_divine_word w s1 in
                    if divineWord = None \<and> t \<noteq> ''VOID''
                    then (json_response 404 (ErrorJson ''Divine word not found''), s2)
                    else
                      let s3 = update_collection e uid divineWord s2;
                          s4 = update_statistics e uid t (score b) s3
                      in (json_response 200
                            (SuccessJson ''Oracle result tracked successfully''), s4))))"

subsection \<open>Reading the profile\<close>

text \<open>
  JavaScript numbers are IEEE 754 doubles. A finite double is written here as the
  rational number it stands for, and an operation is the exact operation followed by
  rounding to the nearest double, ties to the even significand (53 bits). The counts
  met here are far inside the normal range, so neither overflow nor subnormal numbers
  are modelled.
\<close>

function bit_length :: "int \<Rightarrow> nat" where
  "bit_length n = (if n \<le> 0 then 0 else Suc (bit_length (n div 2)))"
  by pat_completeness auto
termination
  by (relation "measure nat") auto

declare bit_length.simps [simp del]

definition pow2 :: "int \<Rightarrow> rat" where
  "pow2 k = (if 0 \<le> k then 2 ^ nat k else 1 / 2 ^ nat (- k))"

text \<open>For \<open>q > 0\<close>, the exponent \<open>e\<close> with \<open>2\<^sup>e \<le> q < 2\<^sup>e\<^sup>+\<^sup>1\<close>.\<close>

definition binade :: "rat \<Rightarrow> int" where
  "binade q =
     (let (a, b) = quotient_of q;
          k = int (bit_length a) - int (bit_length b)
      in if pow2 k \<le> q then k else k - 1)"

definition round_half_even :: "rat \<Rightarrow> int" where
  "round_half_even q =
     (let f = \<lfloor>q\<rfloor>; d = q - of_int f
      in if d < 1 / 2 then f else if 1 / 2 < d then f + 1
         else if even f then f else f + 1)"

definition to_double :: "rat \<Rightarrow> rat" where
  "to_double q =
     (if q = 0 then 0
      else let ulp = pow2 (binade \<bar>q\<bar> - 52)
           in sgn q * of_int (round_half_even (\<bar>q\<bar> / ulp)) * ulp)"

definition double_div :: "rat \<Rightarrow> rat \<Rightarrow> rat" where
  "double_div x y = to_double (x / y)"

definition double_mul :: "rat \<Rightarrow> rat \<Rightarrow> rat" where
  "double_mul x y = to_double (x * y)"

text \<open>\<^verbatim>\<open>totalWords > 0 ? Math.floor((collectedWords / totalWords) * 100) : 0\<close>\<close>

definition completionPercent :: "nat \<Rightarrow> nat \<Rightarrow> int" where
  "completionPercent collectedWords totalWords =
     (if totalWords > 0
      then \<lfloor>double_mul (double_div (of_nat collectedWords) (of_nat totalWords)) 100\<rfloor>
      else 0)"

text \<open>
  The joined select of the user's ledger rows, latest \<^verbatim>\<open>updated_at\<close> first (the order
  among equal timestamps is the database's choice; here it is that of a stable sort).
\<close>

definition select_user_collections :: "uuid \<Rightarrow> state \<Rightarrow> collection_item list \<times> state" where
  "select_user_collections uid s =
     (map (\<lambda>c. (c, find (\<lambda>d. dw_id d = uc_divine_word_id c) (divine_words (db s))))
        (rev (sort_key uc_updated_at
           (filter (\<lambda>c. uc_user_id c = uid) (user_collections (db s))))),
      called (SelectUserCollections uid) s)"

definition select_divine_words :: "state \<Rightarrow> divine_word list \<times> state" where
  "select_divine_words s = (divine_words (db s), called SelectDivineWords s)"

definition has_rarity :: "string \<Rightarrow> collection_item \<Rightarrow> bool" where
  "has_rarity r c = (case snd c of None \<Rightarrow> False | Some d \<Rightarrow> dw_rarity d = r)"

text \<open>
  The second handler. Reading \<^verbatim>\<open>c.divine_words.rarity\<close> of an item whose embedded
  object is \<^verbatim>\<open>null\<close> throws, which the \<^verbatim>\<open>catch\<close> turns into 500.
\<close>

definition profile_reader :: "environment \<Rightarrow> request \<Rightarrow> state \<Rightarrow> response \<times> state" where
  "profile_reader e req s =
     (if http_method req = ''OPTIONS''
      then (\<lparr>status = 200, headers = corsHeaders, json = NoBody\<rparr>, s)
      else
        (case authenticate e req s of
           (Inl r, s1) \<Rightarrow> (r, s1)
         | (Inr uid, s1) \<Rightarrow>
             let (st, s2) = select_user_statistics uid s1;
                 (collections, s3) = select_user_collections uid s2;
                 (allWords, s4) = select_divine_words s3;
                 totalWords = length allWords;
                 collectedWords = length collections
             in if filter (\<lambda>c. snd c = None) collections \<noteq> []
                then (json_response 500 (ErrorJson ''Internal server error''), s4)
                else
                  (json_response 200 (ProfileJson
                     \<lparr>stats = (case st of Some row \<Rightarrow> StatsRow row
                                | None \<Rightarrow> StatsLiteral 0 0 0 0 0 None),
                      collections_total = collectedWords,
                      collections_ssr = length (filter (has_rarity ''SSR'') collections),
                      collections_sr = length (filter (has_rarity ''SR'') collections),
                      collections_items = collections,
                      completion_percent = completionPercent collectedWords totalWords,
                      completion_collected = collectedWords,
                      completion_total = totalWords\<rparr>), s4)))"

section \<open>Sequences of requests and sample inputs\<close>

text \<open>Requests handled one after the other, each on the state the previous one left.\<close>

fun track_results :: "environment \<Rightarrow> request list \<Rightarrow> state \<Rightarrow> response list \<times> state" where
  "track_results e [] s = ([], s)"
| "track_results e (req # reqs) s =
     (let (r, s1) = track_result e req s; (rs, s2) = track_results e reqs s1
      in (r # rs, s2))"

text \<open>The \<^verbatim>\<open>type\<close> and \<^verbatim>\<open>score\<close> a request carries, for requests that carry them.\<close>

definition spin_type :: "request \<Rightarrow> string" where
  "spin_type req =
     (case body req of Body b \<Rightarrow> (case type b of Some t \<Rightarrow> t | None \<Rightarrow> []) | _ \<Rightarrow> [])"

definition spin_score :: "request \<Rightarrow> int" where
  "spin_score req =
     (case body req of Body b \<Rightarrow> (case score b of Some n \<Rightarrow> n | None \<Rightarrow> 0) | _ \<Rightarrow> 0)"

text \<open>
  The statistics write of a spin of type \<open>t\<close> and score \<open>sc\<close>, built from what the
  lookup found, stays within the \<^verbatim>\<open>integer\<close> columns: the score of a first spin, or
  the four incremented counters and the new maximum.
\<close>

definition spin_fits :: "user_statistic option \<Rightarrow> string \<Rightarrow> int option \<Rightarrow> bool" where
  "spin_fits found t sc =
     (case found of
        None \<Rightarrow> (case sc of None \<Rightarrow> True | Some n \<Rightarrow> int32 n)
      | Some st \<Rightarrow>
          int32 (us_total_spins st + 1) \<and> int32 (us_total_points st + points t) \<and>
          int32 (us_divine_count st + divineIncrement t) \<and>
          int32 (us_reality_count st + realityIncrement t) \<and>
          (case sc of
             None \<Rightarrow> True
           | Some n \<Rightarrow>
               int32 (max (case us_highest_score st of None \<Rightarrow> 0 | Some h \<Rightarrow> h) n)))"

text \<open>
  A configured deployment whose identity provider knows one token, a catalog of two
  words (the seeded words are Japanese; ASCII stands in for them), and a user without
  ledger or statistics rows.
\<close>

definition sample_env :: environment where
  "sample_env =
     \<lparr>SUPABASE_URL = Some ''https://project.supabase.co'',
      SUPABASE_SERVICE_ROLE_KEY = Some ''service-role-key'',
      getUser = (\<lambda>token. if token = ''alice''
                          then \<lparr>user = Some 7, error = None\<rparr>
                          else \<lparr>user = None, error = Some ''invalid JWT''\<rparr>),
      clock = (\<lambda>n. 1000 + n)\<rparr>"

definition sample_state :: state where
  "sample_state =
     \<lparr>db = \<lparr>divine_words = [\<lparr>dw_id = 1, dw_word = ''anko'', dw_rarity = ''SSR''\<rparr>,
                              \<lparr>dw_id = 2, dw_word = ''tenki'', dw_rarity = ''SR''\<rparr>],
            user_collections = [], user_statistics = []\<rparr>,
      next_id = 100, ticks = 0, calls = []\<rparr>"

text \<open>The same deployment after that user's first spin, a \<^verbatim>\<open>DIVINE\<close> one scored 87.\<close>

definition played_state :: state where
  "played_state =
     \<lparr>db = \<lparr>divine_words = divine_words (db sample_state),
         user_collections =
           [\<lparr>uc_id = 100, uc_user_id = 7, uc_divine_word_id = 1, uc_found_count = 1,
             uc_first_found_at = 1000, uc_updated_at = 1001\<rparr>],
         user_statistics =
           [\<lparr>us_id = 101, us_user_id = 7, us_total_spins = 1, us_total_points = 20,
             us_divine_count = 1, us_reality_count = 0, us_collection_completion = 0,
             us_highest_score = Some 87, us_last_spin_at = Some 1002,
             us_created_at = 1003, us_updated_at = 1004\<rparr>]\<rparr>,
       next_id = 102, ticks = 5,
       calls =
         [AuthGetUser ''alice'', SelectDivineWord ''anko'', SelectUserCollection 7 1,
          InsertUserCollection
            \<lparr>ci_user_id = 7, ci_divine_word_id = 1, ci_found_count = 1,
             ci_first_found_at = 1000, ci_updated_at = 1001\<rparr>,
          SelectUserStatistics 7,
          InsertUserStatistics
            \<lparr>si_user_id = 7, si_total_spins = 1, si_total_points = 20,
             si_divine_count = 1, si_reality_count = 0, si_highest_score = JNum 87,
             si_last_spin_at = 1002, si_created_at = 1003, si_updated_at = 1004\<rparr>]\<rparr>"

text \<open>A user whose spin counter has reached the top of its column.\<close>

definition full_state :: state where
  "full_state =
     \<lparr>db = \<lparr>divine_words = divine_words (db sample_state),
         user_collections = [],
         user_statistics =
           [\<lparr>us_id = 101, us_user_id = 7, us_total_spins = 2147483647,
             us_total_points = 2147483647, us_divine_count = 0, us_reality_count = 0,
             us_collection_completion = 0, us_highest_score = Some 50,
             us_last_spin_at = Some 1002, us_created_at = 1003, us_updated_at = 1004\<rparr>]\<rparr>,
       next_id = 102, ticks = 5, calls = []\<rparr>"

definition spin :: "string option \<Rightarrow> string option \<Rightarrow> int option \<Rightarrow> request" where
  "spin t w sc =
     \<lparr>http_method = ''POST'', authorization = Some ''Bearer alice'',
      body = Body \<lparr>type = t, word = w, score = sc\<rparr>\<rparr>"

text \<open>Two requests without the \<^verbatim>\<open>Authorization\<close> header: a CORS preflight and a
  \<^verbatim>\<open>POST\<close>.\<close>

definition preflight :: request where
  "preflight = \<lparr>http_method = ''OPTIONS'', authorization = None, body = Malformed\<rparr>"

definition anonymous_post :: request where
  "anonymous_post = \<lparr>http_method = ''POST'', authorization = None, body = Malformed\<rparr>"

section \<open>Properties\<close>

subsection \<open>The gate and the validation\<close>

lemma truthy_Some: "truthy (Some t) \<longleftrightarrow> t \<noteq> []"
  by (cases t) simp_all

lemma authenticate_fst: "fst (authenticate e req s) = fst (authenticate e req s')"
  by (simp add: authenticate_def auth_getUser_def Let_def split: option.splits prod.splits)

lemma authenticate_Inr:
  assumes "fst (authenticate e req s) = Inr uid"
  shows "\<exists>token. authenticate e req s = (Inr uid, called (AuthGetUser token) s)"
  using assms
  by (auto simp add: authenticate_def auth_getUser_def Let_def
      split: option.splits if_splits prod.splits)

lemma authenticate_no_header:
  "\<not> truthy (authorization req) \<Longrightarrow>
   authenticate e req s =
     (Inl (json_response 401 (ErrorJson ''Missing authorization header'')), s)"
  by (cases "authorization req" rule: truthy.cases) (simp_all add: authenticate_def)

text \<open>What the handler does with a request that passed the gate and the validation.\<close>

lemma track_result_valid:
  assumes "http_method req \<noteq> ''OPTIONS''" and "fst (authenticate e req s) = Inr uid"
    and "body req = Body b" and "type b = Some t" and "t \<noteq> []"
    and "word b = Some w" and "w \<noteq> []"
  shows "track_result e req s =
     (let s1 = snd (authenticate e req s);
          divineWord = fst (select_divine_word w s1);
          s2 = snd (select_divine_word w s1)
      in if divineWord = None \<and> t \<noteq> ''VOID''
         then (json_response 404 (ErrorJson ''Divine word not found''), s2)
         else (json_response 200 (SuccessJson ''Oracle result tracked successfully''),
               update_statistics e uid t (score b) (update_collection e uid divineWord s2)))"
proof -
  obtain s1 where a: "authenticate e req s = (Inr uid, s1)"
    using assms(2) by (cases "authenticate e req s") simp
  show ?thesis
    using assms(1,3-7) by (simp add: track_result_def a truthy_Some Let_def split: prod.splits)
qed

text \<open>
  A body that does not parse, or parses to \<^verbatim>\<open>null\<close>, has no fields to miss: the
  exception it raises is caught and answered 500.
\<close>

lemma track_result_unparsable_body:
  assumes "http_method req \<noteq> ''OPTIONS''" and "fst (authenticate e req s) = Inr uid"
    and "body req = Malformed \<or> body req = BodyNull"
  shows "\<exists>token. track_result e req s =
           (json_response 500 (ErrorJson ''Internal server error''),
            called (AuthGetUser token) s)"
proof -
  obtain token where "authenticate e req s = (Inr uid, called (AuthGetUser token) s)"
    using authenticate_Inr [OF assms(2)] by blast
  then show ?thesis
    using assms(1,3) by (auto simp: track_result_def)
qed

subsection \<open>Effects of the two write blocks on the tables\<close>

lemma filter_map_same:
  assumes "\<And>x. P (g x) = P x"
  shows "filter P (map g xs) = map g (filter P xs)"
  using assms by (induction xs) simp_all

lemma unique_cases:
  assumes "length xs \<le> 1"
  obtains "xs = []" | x where "xs = [x]"
  using assms by (cases xs rule: maybeSingle.cases) auto

lemma db_authenticate [simp]: "db (snd (authenticate e req s)) = db s"
  by (simp add: authenticate_def auth_getUser_def called_def Let_def
      split: option.splits prod.splits)

lemma authenticate_body [simp]:
  "authenticate e (req\<lparr>body := x\<rparr>) s = authenticate e req s"
  by (simp add: authenticate_def)

lemma db_select_divine_word [simp]: "db (snd (select_divine_word w s)) = db s"
  by (simp add: select_divine_word_def called_def)

lemma fst_select_divine_word:
  "fst (select_divine_word w s) = maybeSingle (filter (\<lambda>r. dw_word r = w) (divine_words (db s)))"
  by (simp add: select_divine_word_def)

lemma fst_select_user_statistics:
  "fst (select_user_statistics uid s) =
     maybeSingle (filter (\<lambda>r. us_user_id r = uid) (user_statistics (db s)))"
  by (simp add: select_user_statistics_def)

lemma select_user_statistics_cong:
  "user_statistics (db s0) = user_statistics (db s) \<Longrightarrow>
   fst (select_user_statistics uid s0) = fst (select_user_statistics uid s)"
  by (simp add: select_user_statistics_def)

lemma fst_select_user_collection:
  "fst (select_user_collection uid wid s) =
     maybeSingle (filter (\<lambda>r. uc_user_id r = uid \<and> uc_divine_word_id r = wid)
        (user_collections (db s)))"
  by (simp add: select_user_collection_def)

lemma update_collection_None [simp]: "update_collection e uid None s = s"
  by (simp add: update_collection_def)

lemma update_collection_frame [simp]:
  "user_statistics (db (update_collection e uid dw s)) = user_statistics (db s)"
  "divine_words (db (update_collection e uid dw s)) = divine_words (db s)"
  by (simp_all add: update_collection_def select_user_collection_def now_def called_def
      update_user_collection_def insert_user_collection_def Let_def
      split: option.splits)

lemma update_statistics_frame [simp]:
  "user_collections (db (update_statistics e uid t sc s)) = user_collections (db s)"
  "divine_words (db (update_statistics e uid t sc s)) = divine_words (db s)"
  by (simp_all add: update_statistics_def select_user_statistics_def now_def called_def
      update_user_statistics_def insert_user_statistics_def Let_def
      split: option.splits)

lemma int32_small [simp]: "int32 0" "int32 1" "int32 2" "int32 5" "int32 20"
  by (simp_all add: int32_def)

lemma int32_increments [simp]:
  "int32 (points t)" "int32 (divineIncrement t)" "int32 (realityIncrement t)"
  by (simp_all add: points_def divineIncrement_def realityIncrement_def)

lemma json_int32_of_field:
  "json_int32 (of_field sc) \<longleftrightarrow> (case sc of None \<Rightarrow> True | Some n \<Rightarrow> int32 n)"
  by (cases sc) (simp_all add: json_int32_def of_field_def)

text \<open>\<^verbatim>\<open>Math.max(stats.highest_score, score)\<close>, as it reaches the column.\<close>

lemma stringify_Math_max:
  "stringify (Math_max (of_column h) (of_field sc)) =
     Some (case sc of None \<Rightarrow> None
           | Some n \<Rightarrow> Some (max (case h of None \<Rightarrow> 0 | Some k \<Rightarrow> k) n))"
  by (cases h; cases sc) (simp_all add: Math_max_def of_column_def of_field_def)

lemma json_int32_Math_max:
  "json_int32 (Math_max (of_column h) (of_field sc)) \<longleftrightarrow>
     (case sc of None \<Rightarrow> True
      | Some n \<Rightarrow> int32 (max (case h of None \<Rightarrow> 0 | Some k \<Rightarrow> k) n))"
  by (cases sc) (simp_all add: json_int32_def stringify_Math_max)

text \<open>The first spin of a user seeds the statistics row.\<close>

lemma update_statistics_insert:
  assumes "filter (\<lambda>r. us_user_id r = uid) (user_statistics (db s)) = []"
    and "spin_fits None t sc"
  shows "filter (\<lambda>r. us_user_id r = uid) (user_statistics (db (update_statistics e uid t sc s))) =
     [\<lparr>us_id = next_id s, us_user_id = uid, us_total_spins = 1, us_total_points = points t,
       us_divine_count = divineIncrement t, us_reality_count = realityIncrement t,
       us_collection_completion = 0,
       us_highest_score = (case sc of None \<Rightarrow> Some 0 | Some n \<Rightarrow> Some n),
       us_last_spin_at = Some (clock e (ticks s)),
       us_created_at = clock e (Suc (ticks s)),
       us_updated_at = clock e (Suc (Suc (ticks s)))\<rparr>]"
proof -
  have "json_int32 (of_field sc)"
    using assms(2) by (simp add: json_int32_of_field spin_fits_def)
  moreover have "(case stringify (of_field sc) of None \<Rightarrow> Some 0 | Some v \<Rightarrow> v) =
      (case sc of None \<Rightarrow> Some 0 | Some n \<Rightarrow> Some n)"
    by (cases sc) (simp_all add: of_field_def)
  ultimately show ?thesis
    using assms(1)
    by (simp add: update_statistics_def select_user_statistics_def now_def called_def
        insert_user_statistics_def Let_def)
qed

text \<open>Every later spin rewrites that row.\<close>

lemma update_statistics_update:
  assumes "filter (\<lambda>r. us_user_id r = uid) (user_statistics (db s)) = [st]"
    and "spin_fits (Some st) t sc"
  shows "filter (\<lambda>r. us_user_id r = uid) (user_statistics (db (update_statistics e uid t sc s))) =
     [st\<lparr>us_total_spins := us_total_spins st + 1,
         us_total_points := us_total_points st + points t,
         us_divine_count := us_divine_count st + divineIncrement t,
         us_reality_count := us_reality_count st + realityIncrement t,
         us_highest_score :=
           (case sc of None \<Rightarrow> None
            | Some n \<Rightarrow> Some (max (case us_highest_score st of None \<Rightarrow> 0 | Some h \<Rightarrow> h) n)),
         us_last_spin_at := Some (clock e (ticks s)),
         us_updated_at := clock e (Suc (ticks s))\<rparr>]"
proof -
  let ?g = "\<lambda>r. if us_id r = us_id st
      then r\<lparr>us_total_spins := us_total_spins st + 1,
         us_total_points := us_total_points st + points t,
         us_divine_count := us_divine_count st + divineIncrement t,
         us_reality_count := us_reality_count st + realityIncrement t,
         us_highest_score :=
           (case sc of None \<Rightarrow> None
            | Some n \<Rightarrow> Some (max (case us_highest_score st of None \<Rightarrow> 0 | Some h \<Rightarrow> h) n)),
         us_last_spin_at := Some (clock e (ticks s)),
         us_updated_at := clock e (Suc (ticks s))\<rparr>
      else r"
  have fits: "int32 (us_total_spins st + 1)" "int32 (us_total_points st + points t)"
    "int32 (us_divine_count st + divineIncrement t)"
    "int32 (us_reality_count st + realityIncrement t)"
    "json_int32 (Math_max (of_column (us_highest_score st)) (of_field sc))"
    using assms(2) by (simp_all add: spin_fits_def json_int32_Math_max)
  have tab: "user_statistics (db (update_statistics e uid t sc s)) =
      map ?g (user_statistics (db s))"
    using assms(1) fits
    by (simp add: update_statistics_def select_user_statistics_def now_def called_def
        update_user_statistics_def Let_def stringify_Math_max)
  have "filter (\<lambda>r. us_user_id r = uid) (map ?g (user_statistics (db s))) =
      map ?g (filter (\<lambda>r. us_user_id r = uid) (user_statistics (db s)))"
    by (rule filter_map_same) simp
  then show ?thesis
    by (simp add: tab assms(1))
qed

text \<open>A write that does not fit is refused, and the table stays as it was.\<close>

lemma update_statistics_refused:
  assumes "\<not> spin_fits (fst (select_user_statistics uid s)) t sc"
  shows "user_statistics (db (update_statistics e uid t sc s)) = user_statistics (db s)"
proof (cases "fst (select_user_statistics uid s)")
  case None
  then have "\<not> json_int32 (of_field sc)"
    using assms by (simp add: spin_fits_def json_int32_of_field)
  then show ?thesis
    using None
    by (simp add: update_statistics_def select_user_statistics_def now_def called_def
        insert_user_statistics_def Let_def)
next
  case (Some st)
  then have "\<not> (int32 (us_total_spins st + 1) \<and> int32 (us_total_points st + points t) \<and>
      int32 (us_divine_count st + divineIncrement t) \<and>
      int32 (us_reality_count st + realityIncrement t) \<and>
      json_int32 (Math_max (of_column (us_highest_score st)) (of_field sc)))"
    using assms by (simp add: spin_fits_def json_int32_Math_max)
  then have "db (update_user_statistics rid
       \<lparr>su_total_spins = us_total_spins st + 1,
        su_total_points = us_total_points st + points t,
        su_divine_count = us_divine_count st + divineIncrement t,
        su_reality_count = us_reality_count st + realityIncrement t,
        su_highest_score = Math_max (of_column (us_highest_score st)) (of_field sc),
        su_last_spin_at = t1, su_updated_at = t2\<rparr> s0) = db s0" for rid t1 t2 s0
    by (auto simp add: update_user_statistics_def called_def Let_def)
  then show ?thesis
    using Some
    by (simp add: update_statistics_def select_user_statistics_def now_def called_def Let_def)
qed

lemma calls_select_divine_word [simp]:
  "calls (snd (select_divine_word w s)) = calls s @ [SelectDivineWord w]"
  by (simp add: select_divine_word_def called_def)

lemma calls_update_statistics:
  "calls (update_statistics e uid t sc s) = calls s @
     [SelectUserStatistics uid,
      (case fst (select_user_statistics uid s) of
         Some st \<Rightarrow>
           UpdateUserStatistics (us_id st)
             \<lparr>su_total_spins = us_total_spins st + 1,
              su_total_points = us_total_points st + points t,
              su_divine_count = us_divine_count st + divineIncrement t,
              su_reality_count = us_reality_count st + realityIncrement t,
              su_highest_score = Math_max (of_column (us_highest_score st)) (of_field sc),
              su_last_spin_at = clock e (ticks s), su_updated_at = clock e (Suc (ticks s))\<rparr>
       | None \<Rightarrow>
           InsertUserStatistics
             \<lparr>si_user_id = uid, si_total_spins = 1, si_total_points = points t,
              si_divine_count = divineIncrement t, si_reality_count = realityIncrement t,
              si_highest_score = of_field sc,
              si_last_spin_at = clock e (ticks s), si_created_at = clock e (Suc (ticks s)),
              si_updated_at = clock e (Suc (Suc (ticks s)))\<rparr>)]"
  by (simp add: update_statistics_def select_user_statistics_def now_def called_def
      update_user_statistics_def insert_user_statistics_def Let_def split: option.splits)

lemma calls_update_collection:
  "\<exists>cs. calls (update_collection e uid dw s) = calls s @ cs"
  by (simp add: update_collection_def select_user_collection_def now_def called_def
      update_user_collection_def insert_user_collection_def Let_def split: option.splits)

lemma Math_max_undefined: "Math_max a JUndefined = JNaN"
  by (cases a) (simp_all add: Math_max_def)

text \<open>The ledger block: a first find inserts the entry, a later one counts it.\<close>

lemma update_collection_insert:
  assumes "filter (\<lambda>r. uc_user_id r = uid \<and> uc_divine_word_id r = dw_id dw)
             (user_collections (db s)) = []"
  shows "filter (\<lambda>r. uc_user_id r = uid \<and> uc_divine_word_id r = dw_id dw)
           (user_collections (db (update_collection e uid (Some dw) s))) =
     [\<lparr>uc_id = next_id s, uc_user_id = uid, uc_divine_word_id = dw_id dw,
       uc_found_count = 1, uc_first_found_at = clock e (ticks s),
       uc_updated_at = clock e (Suc (ticks s))\<rparr>]"
  using assms
  by (simp add: update_collection_def select_user_collection_def now_def called_def
      insert_user_collection_def Let_def)

lemma update_collection_update:
  assumes "filter (\<lambda>r. uc_user_id r = uid \<and> uc_divine_word_id r = dw_id dw)
             (user_collections (db s)) = [ex]"
    and "0 \<le> uc_found_count ex" and "uc_found_count ex < 2147483647"
  shows "filter (\<lambda>r. uc_user_id r = uid \<and> uc_divine_word_id r = dw_id dw)
           (user_collections (db (update_collection e uid (Some dw) s))) =
     [ex\<lparr>uc_found_count := uc_found_count ex + 1, uc_updated_at := clock e (ticks s)\<rparr>]"
proof -
  let ?Q = "\<lambda>r. uc_user_id r = uid \<and> uc_divine_word_id r = dw_id dw"
  let ?g = "\<lambda>r. if uc_id r = uc_id ex
      then r\<lparr>uc_found_count := uc_found_count ex + 1, uc_updated_at := clock e (ticks s)\<rparr>
      else r"
  have "int32 (uc_found_count ex + 1)"
    using assms(2,3) by (simp add: int32_def)
  then have tab: "user_collections (db (update_collection e uid (Some dw) s)) =
      map ?g (user_collections (db s))"
    using assms
    by (simp add: update_collection_def select_user_collection_def now_def called_def
        update_user_collection_def Let_def)
  have "filter ?Q (map ?g (user_collections (db s))) =
      map ?g (filter ?Q (user_collections (db s)))"
    by (rule filter_map_same) simp
  then show ?thesis
    by (simp add: tab assms)
qed

lemma track_result_catalog [simp]:
  "divine_words (db (snd (track_result e req s))) = divine_words (db s)"
proof (cases "authenticate e req s")
  case (Pair a s1)
  have "divine_words (db s1) = divine_words (db s)"
    using db_authenticate [of e req s] Pair by simp
  then show ?thesis
    by (simp add: track_result_def Pair Let_def split: sum.splits request_body.splits prod.splits)
      (auto simp: select_divine_word_def called_def)
qed

text \<open>
  An answer of 200 means that both blocks ran: the final state is the statistics block
  applied to a state whose statistics table is the initial one.
\<close>

lemma track_result_200:
  assumes "http_method req \<noteq> ''OPTIONS''" and "fst (authenticate e req s) = Inr uid"
    and "body req = Body b" and "track_result e req s = (r, s')" and "status r = 200"
  obtains t w s0 where "type b = Some t" and "t \<noteq> []" and "word b = Some w" and "w \<noteq> []"
    and "user_statistics (db s0) = user_statistics (db s)"
    and "s' = update_statistics e uid t (score b) s0"
proof -
  obtain s1 where a: "authenticate e req s = (Inr uid, s1)"
    using assms(2) by (cases "authenticate e req s") simp
  have "truthy (type b) \<and> truthy (word b)"
  proof (rule ccontr)
    assume "\<not> (truthy (type b) \<and> truthy (word b))"
    then have "status (fst (track_result e req s)) = 400"
      using assms(1,3) by (auto simp add: track_result_def a json_response_def)
    then show False using assms(4,5) by simp
  qed
  then obtain t w where t: "type b = Some t" "t \<noteq> []" and w: "word b = Some w" "w \<noteq> []"
    by (cases "type b" rule: truthy.cases; cases "word b" rule: truthy.cases) auto
  let ?s2 = "snd (select_divine_word w (snd (authenticate e req s)))"
  let ?sc = "update_collection e uid (fst (select_divine_word w (snd (authenticate e req s)))) ?s2"
  have "s' = update_statistics e uid t (score b) ?sc"
    using track_result_valid [OF assms(1,2,3) t w] assms(4,5)
    by (simp add: Let_def json_response_def split: if_splits)
  moreover have "user_statistics (db ?sc) = user_statistics (db s)" by simp
  ultimately show ?thesis using that t w by blast
qed

text \<open>The ledger after a spin for a known word.\<close>

lemma recorded_spin_ledger:
  assumes "http_method req \<noteq> ''OPTIONS''" and "fst (authenticate e req s) = Inr uid"
    and "body req = Body b" and "type b = Some t" and "t \<noteq> []"
    and "word b = Some w" and "w \<noteq> []"
    and "filter (\<lambda>d. dw_word d = w) (divine_words (db s)) = [dw]"
  shows "\<exists>s0. db s0 = db s \<and>
           user_collections (db (snd (track_result e req s))) =
           user_collections (db (update_collection e uid (Some dw) s0))"
proof -
  let ?s2 = "snd (select_divine_word w (snd (authenticate e req s)))"
  have "fst (select_divine_word w (snd (authenticate e req s))) = Some dw"
    by (simp add: fst_select_divine_word assms(8))
  then have "snd (track_result e req s) =
      update_statistics e uid t (score b) (update_collection e uid (Some dw) ?s2)"
    using track_result_valid [OF assms(1-7)] by (simp add: Let_def)
  then have "user_collections (db (snd (track_result e req s))) =
      user_collections (db (update_collection e uid (Some dw) ?s2))"
    by simp
  moreover have "db ?s2 = db s" by simp
  ultimately show ?thesis by blast
qed

text \<open>The statistics row of the user after a recorded spin whose write fits.\<close>

lemma recorded_spin_statistics:
  assumes "length (filter (\<lambda>r. us_user_id r = uid) (user_statistics (db s))) \<le> 1"
    and "user_statistics (db s0) = user_statistics (db s)"
    and "spin_fits (fst (select_user_statistics uid s)) t sc"
  shows "\<exists>row. fst (select_user_statistics uid (update_statistics e uid t sc s0)) = Some row \<and>
      us_total_spins row =
        (case fst (select_user_statistics uid s) of None \<Rightarrow> 0 | Some st \<Rightarrow> us_total_spins st) + 1 \<and>
      us_total_points row =
        (case fst (select_user_statistics uid s) of None \<Rightarrow> 0 | Some st \<Rightarrow> us_total_points st)
          + points t \<and>
      us_divine_count row =
        (case fst (select_user_statistics uid s) of None \<Rightarrow> 0 | Some st \<Rightarrow> us_divine_count st)
          + divineIncrement t \<and>
      us_reality_count row =
        (case fst (select_user_statistics uid s) of None \<Rightarrow> 0 | Some st \<Rightarrow> us_reality_count st)
          + realityIncrement t \<and>
      us_highest_score row =
        (case fst (select_user_statistics uid s) of
           None \<Rightarrow> (case sc of None \<Rightarrow> Some 0 | Some n \<Rightarrow> Some n)
         | Some st \<Rightarrow>
             (case sc of None \<Rightarrow> None
              | Some n \<Rightarrow> Some (max (case us_highest_score st of None \<Rightarrow> 0 | Some h \<Rightarrow> h) n)))"
proof -
  let ?P = "\<lambda>r. us_user_id r = uid"
  from assms(1) show ?thesis
  proof (cases rule: unique_cases)
    case 1
    then have "filter ?P (user_statistics (db s0)) = []" by (simp only: assms(2))
    moreover have "spin_fits None t sc"
      using assms(3) 1 by (simp add: fst_select_user_statistics)
    ultimately show ?thesis
      using update_statistics_insert [of uid s0 t sc e] 1
      by (simp add: fst_select_user_statistics)
  next
    case (2 st)
    then have "filter ?P (user_statistics (db s0)) = [st]" by (simp only: assms(2))
    moreover have "spin_fits (Some st) t sc"
      using assms(3) 2 by (simp add: fst_select_user_statistics)
    ultimately show ?thesis
      using update_statistics_update [of uid s0 st t sc e] 2
      by (simp add: fst_select_user_statistics)
  qed
qed

lemma points_pos: "1 \<le> points t" "points t \<le> 20"
  by (simp_all add: points_def)

lemma increments_bounds:
  "0 \<le> divineIncrement t" "divineIncrement t \<le> 1"
  "0 \<le> realityIncrement t" "realityIncrement t \<le> 1"
  by (simp_all add: divineIncrement_def realityIncrement_def)

text \<open>
  A later spin with a score, on a row whose counters are those of a history of spins
  (tier counts within the spin count, the spin count within the points) and leave room
  for the points of this one.
\<close>

lemma recorded_spin_row:
  assumes "http_method req \<noteq> ''OPTIONS''" and "fst (authenticate e req s) = Inr uid"
    and "body req = Body b" and "score b = Some sc" and "int32 sc"
    and "track_result e req s = (r, s')" and "status r = 200"
    and "filter (\<lambda>r. us_user_id r = uid) (user_statistics (db s)) = [st]"
    and "us_highest_score st = Some h" and "int32 h"
    and "0 \<le> us_divine_count st" and "us_divine_count st \<le> us_total_spins st"
    and "0 \<le> us_reality_count st" and "us_reality_count st \<le> us_total_spins st"
    and "0 \<le> us_total_spins st" and "us_total_spins st \<le> us_total_points st"
    and "us_total_points st + points (spin_type req) \<le> 2147483647"
  shows "\<exists>row. filter (\<lambda>r. us_user_id r = uid) (user_statistics (db s')) = [row] \<and>
           us_total_spins row = us_total_spins st + 1 \<and>
           us_total_points row = us_total_points st + points (spin_type req) \<and>
           us_divine_count row = us_divine_count st + divineIncrement (spin_type req) \<and>
           us_reality_count row = us_reality_count st + realityIncrement (spin_type req) \<and>
           us_highest_score row = Some (max h sc)"
proof -
  from assms(1,2,3,6,7) obtain t w s0 where run: "type b = Some t"
    "user_statistics (db s0) = user_statistics (db s)"
    "s' = update_statistics e uid t (score b) s0"
    by (rule track_result_200)
  have ty: "spin_type req = t"
    by (simp add: spin_type_def assms(3) run(1))
  have room: "us_total_points st + points t \<le> 2147483647"
    using assms(17) ty by simp
  have "int32 (max h sc)"
    using assms(5,10) by (simp add: int32_def max_def)
  moreover have "int32 (us_total_spins st + 1)" "int32 (us_total_points st + points t)"
    "int32 (us_divine_count st + divineIncrement t)"
    "int32 (us_reality_count st + realityIncrement t)"
    using assms(11-16) room points_pos [of t] increments_bounds [of t]
    by (simp_all add: int32_def)
  ultimately have fits: "spin_fits (Some st) t (Some sc)"
    by (simp add: spin_fits_def assms(9))
  have "filter (\<lambda>r. us_user_id r = uid) (user_statistics (db s0)) = [st]"
    using assms(8) by (simp only: run(2))
  from update_statistics_update [OF this fits, of e]
  show ?thesis
    by (simp add: run(3) assms(4,9) ty)
qed

lemma track_results_accumulate:
  assumes "\<forall>req\<in>set reqs. http_method req \<noteq> ''OPTIONS'' \<and>
             fst (authenticate e req s0) = Inr uid \<and>
             (\<exists>b sc. body req = Body b \<and> score b = Some sc \<and> int32 sc)"
    and "filter (\<lambda>r. us_user_id r = uid) (user_statistics (db s)) = [st]"
    and "us_highest_score st = Some h" and "int32 h"
    and "0 \<le> us_divine_count st" and "us_divine_count st \<le> us_total_spins st"
    and "0 \<le> us_reality_count st" and "us_reality_count st \<le> us_total_spins st"
    and "0 \<le> us_total_spins st" and "us_total_spins st \<le> us_total_points st"
    and "us_total_points st + sum_list (map (\<lambda>req. points (spin_type req)) reqs) \<le> 2147483647"
    and "track_results e reqs s = (rs, s')"
    and "\<forall>r\<in>set rs. status r = 200"
  shows "\<exists>row. filter (\<lambda>r. us_user_id r = uid) (user_statistics (db s')) = [row] \<and>
           us_total_spins row = us_total_spins st + int (length reqs) \<and>
           us_total_points row =
             us_total_points st + sum_list (map (\<lambda>req. points (spin_type req)) reqs) \<and>
           us_highest_score row = Some (fold max (map spin_score reqs) h)"
  using assms
proof (induction reqs arbitrary: s st h rs)
  case Nil
  then show ?case by simp
next
  case (Cons req reqs)
  obtain r s1 where step: "track_result e req s = (r, s1)"
    by (cases "track_result e req s")
  obtain rs' where rest: "track_results e reqs s1 = (rs', s')" and rs: "rs = r # rs'"
    using Cons.prems(12) by (auto simp: step split: prod.splits)
  from Cons.prems(1) obtain b sc where req:
    "http_method req \<noteq> ''OPTIONS''" "fst (authenticate e req s) = Inr uid"
    "body req = Body b" "score b = Some sc" "int32 sc"
    using authenticate_fst [of e req s s0] by auto
  have sco: "spin_score req = sc"
    by (simp add: spin_score_def req(3,4))
  have ok: "status r = 200" using Cons.prems(13) rs by simp
  have nonneg: "0 \<le> sum_list (map (\<lambda>req. points (spin_type req)) reqs)"
    by (rule sum_list_nonneg) (auto simp: points_def)
  have room: "us_total_points st + points (spin_type req) \<le> 2147483647"
    using Cons.prems(11) nonneg by simp
  from recorded_spin_row [OF req step ok Cons.prems(2-10) room]
  obtain row where row: "filter (\<lambda>r. us_user_id r = uid) (user_statistics (db s1)) = [row]"
    "us_total_spins row = us_total_spins st + 1"
    "us_total_points row = us_total_points st + points (spin_type req)"
    "us_divine_count row = us_divine_count st + divineIncrement (spin_type req)"
    "us_reality_count row = us_reality_count st + realityIncrement (spin_type req)"
    "us_highest_score row = Some (max h sc)"
    by blast
  have inv: "int32 (max h sc)"
    "0 \<le> us_divine_count row" "us_divine_count row \<le> us_total_spins row"
    "0 \<le> us_reality_count row" "us_reality_count row \<le> us_total_spins row"
    "0 \<le> us_total_spins row" "us_total_spins row \<le> us_total_points row"
    "us_total_points row + sum_list (map (\<lambda>req. points (spin_type req)) reqs) \<le> 2147483647"
    using Cons.prems(4-11) req(5) points_pos [of "spin_type req"]
      increments_bounds [of "spin_type req"]
    by (simp_all add: row int32_def max_def)
  have "\<exists>row'. filter (\<lambda>r. us_user_id r = uid) (user_statistics (db s')) = [row'] \<and>
           us_total_spins row' = us_total_spins row + int (length reqs) \<and>
           us_total_points row' =
             us_total_points row + sum_list (map (\<lambda>req. points (spin_type req)) reqs) \<and>
           us_highest_score row' = Some (fold max (map spin_score reqs) (max h sc))"
    using Cons.IH [OF _ row(1,6) inv rest] Cons.prems(1,13) rs by simp
  then show ?case
    by (auto simp: row(2,3) sco max.commute)
qed

subsection \<open>The sample inputs\<close>

lemmas eval_defs = track_result_def authenticate_def auth_getUser_def sample_env_def sample_state_def
  played_state_def full_state_def
  spin_def select_divine_word_def called_def update_collection_def update_statistics_def
  select_user_collection_def select_user_statistics_def now_def insert_user_collection_def
  insert_user_statistics_def update_user_collection_def update_user_statistics_def
  json_response_def corsHeaders_def points_def divineIncrement_def realityIncrement_def
  of_field_def of_column_def Math_max_def int32_def json_int32_def spin_fits_def Let_def

lemma sample_gate: "fst (authenticate sample_env (spin t w sc) s) = Inr 7"
  by (simp add: authenticate_def auth_getUser_def sample_env_def spin_def)

lemma sample_post: "http_method (spin t w sc) \<noteq> ''OPTIONS''"
  by (simp add: spin_def)

lemma sample_body: "body (spin t w sc) = Body \<lparr>type = t, word = w, score = sc\<rparr>"
  by (simp add: spin_def)

lemma sample_statistics_unique:
  "length (filter (\<lambda>r. us_user_id r = 7) (user_statistics (db sample_state))) \<le> 1"
  by (simp add: sample_state_def)

lemma played_statistics_unique:
  "length (filter (\<lambda>r. us_user_id r = 7) (user_statistics (db played_state))) \<le> 1"
  by (simp add: played_state_def)

text \<open>The example of the specification: the first spin of a user.\<close>

lemma sample_first_spin:
  "track_result sample_env (spin (Some ''DIVINE'') (Some ''anko'') (Some 87)) sample_state =
     (json_response 200 (SuccessJson ''Oracle result tracked successfully''), played_state)"
  by (simp add: eval_defs)

section \<open>The claims\<close>

text \<open>
  C1. A spin of one of the three tiers that the handler answers 200 credits the user's
  \<^verbatim>\<open>total_points\<close> with 20 for \<^verbatim>\<open>DIVINE\<close>, 5 for \<^verbatim>\<open>REALITY\<close> and 1 for \<^verbatim>\<open>VOID\<close>,
  whatever the word and the score. The statistics write it sends, the last call, carries
  that value for a first spin and the stored points plus that value otherwise; and when
  the write fits the \<^verbatim>\<open>integer\<close> columns, so that the database records it, the row the
  lookup finds afterwards holds the points found before (0 without a row) plus that
  value. The request has passed the gate as user \<open>uid\<close>, and the table has at most one
  row for the user, as \<^verbatim>\<open>UNIQUE\<close> on \<^verbatim>\<open>user_id\<close> ensures.
\<close>

theorem points_by_type:
  assumes "http_method req \<noteq> ''OPTIONS''" and "fst (authenticate e req s) = Inr uid"
    and "body req = Body b" and "type b = Some t"
    and "t = ''DIVINE'' \<or> t = ''REALITY'' \<or> t = ''VOID''"
    and "length (filter (\<lambda>r. us_user_id r = uid) (user_statistics (db s))) \<le> 1"
    and "track_result e req s = (r, s')" and "status r = 200"
  shows "(case fst (select_user_statistics uid s) of
            None \<Rightarrow>
              \<exists>p. last (calls s') = InsertUserStatistics p \<and>
                si_total_points p =
                  (if t = ''DIVINE'' then 20 else if t = ''REALITY'' then 5 else 1)
          | Some st \<Rightarrow>
              \<exists>p. last (calls s') = UpdateUserStatistics (us_id st) p \<and>
                su_total_points p = us_total_points st +
                  (if t = ''DIVINE'' then 20 else if t = ''REALITY'' then 5 else 1)) \<and>
         (spin_fits (fst (select_user_statistics uid s)) t (score b) \<longrightarrow>
            (\<exists>row. fst (select_user_statistics uid s') = Some row \<and>
               us_total_points row =
                 (case fst (select_user_statistics uid s) of
                    None \<Rightarrow> 0 | Some st \<Rightarrow> us_total_points st)
                 + (if t = ''DIVINE'' then 20 else if t = ''REALITY'' then 5 else 1)))"
proof -
  from assms(1,2,3,7,8) obtain t' w s0 where run: "type b = Some t'"
    "user_statistics (db s0) = user_statistics (db s)"
    "s' = update_statistics e uid t' (score b) s0"
    by (rule track_result_200)
  then have s': "s' = update_statistics e uid t (score b) s0"
    using assms(4) by simp
  have same: "fst (select_user_statistics uid s0) = fst (select_user_statistics uid s)"
    using run(2) by (rule select_user_statistics_cong)
  have sent: "case fst (select_user_statistics uid s) of
            None \<Rightarrow>
              \<exists>p. last (calls s') = InsertUserStatistics p \<and>
                si_total_points p =
                  (if t = ''DIVINE'' then 20 else if t = ''REALITY'' then 5 else 1)
          | Some st \<Rightarrow>
              \<exists>p. last (calls s') = UpdateUserStatistics (us_id st) p \<and>
                su_total_points p = us_total_points st +
                  (if t = ''DIVINE'' then 20 else if t = ''REALITY'' then 5 else 1)"
    using assms(5)
    by (auto simp add: s' calls_update_statistics same points_def split: option.splits)
  have stored: "\<exists>row. fst (select_user_statistics uid s') = Some row \<and>
               us_total_points row =
                 (case fst (select_user_statistics uid s) of
                    None \<Rightarrow> 0 | Some st \<Rightarrow> us_total_points st)
                 + (if t = ''DIVINE'' then 20 else if t = ''REALITY'' then 5 else 1)"
    if "spin_fits (fst (select_user_statistics uid s)) t (score b)"
    using recorded_spin_statistics [OF assms(6) run(2) that, of e] assms(5)
    by (auto simp: s' points_def)
  from sent stored show ?thesis by blast
qed

theorem points_by_type_witness:
  "status (fst (track_result sample_env (spin (Some ''DIVINE'') (Some ''anko'') (Some 87))
      sample_state)) = 200 \<and>
   (\<exists>row. fst (select_user_statistics 7 (snd (track_result sample_env
        (spin (Some ''DIVINE'') (Some ''anko'') (Some 87)) sample_state))) = Some row \<and>
      us_total_points row = 20) \<and>
   status (fst (track_result sample_env (spin (Some ''REALITY'') (Some ''tenki'') (Some 40))
      played_state)) = 200 \<and>
   (\<exists>row. fst (select_user_statistics 7 (snd (track_result sample_env
        (spin (Some ''REALITY'') (Some ''tenki'') (Some 40)) played_state))) = Some row \<and>
      us_total_points row = 25)"
proof -
  let ?req = "spin (Some ''DIVINE'') (Some ''anko'') (Some 87)"
  let ?req2 = "spin (Some ''REALITY'') (Some ''tenki'') (Some 40)"
  have ok: "status (fst (track_result sample_env ?req sample_state)) = 200"
    by (simp add: sample_first_spin json_response_def)
  have ok2: "status (fst (track_result sample_env ?req2 played_state)) = 200"
    by (simp add: eval_defs)
  have fits: "spin_fits (fst (select_user_statistics 7 sample_state)) ''DIVINE'' (Some 87)"
    by (simp add: eval_defs)
  have fits2: "spin_fits (fst (select_user_statistics 7 played_state)) ''REALITY'' (Some 40)"
    by (simp add: eval_defs)
  from points_by_type [where t = "''DIVINE''" and req = ?req and s = sample_state,
      OF sample_post sample_gate sample_body _ _ sample_statistics_unique
        surjective_pairing ok, simplified] fits
  have 1: "\<exists>row. fst (select_user_statistics 7 (snd (track_result sample_env ?req
        sample_state))) = Some row \<and> us_total_points row = 20"
    by (simp add: fst_select_user_statistics sample_state_def)
  from points_by_type [where t = "''REALITY''" and req = ?req2 and s = played_state,
      OF sample_post sample_gate sample_body _ _ played_statistics_unique
        surjective_pairing ok2, simplified] fits2
  have 2: "\<exists>row. fst (select_user_statistics 7 (snd (track_result sample_env ?req2
        played_state))) = Some row \<and> us_total_points row = 25"
    by (simp add: fst_select_user_statistics played_state_def)
  from ok ok2 1 2 show ?thesis by simp
qed

text \<open>
  C2. A user without a statistics row sends \<open>N \<ge> 1\<close> spins, each carrying a score,
  and every one is recorded: it is answered 200, its score is a 32-bit integer and the
  points of the sequence stay within the \<^verbatim>\<open>integer\<close> column, so that no write is
  refused. The row the lookup then finds has \<^verbatim>\<open>total_points\<close> the sum of the spins'
  point values, \<^verbatim>\<open>total_spins = N\<close> and \<^verbatim>\<open>highest_score\<close> the greatest of the scores.
\<close>

theorem statistics_after_n_spins:
  assumes "reqs \<noteq> []"
    and "\<forall>req\<in>set reqs. http_method req \<noteq> ''OPTIONS'' \<and>
             fst (authenticate e req s) = Inr uid \<and>
             (\<exists>b sc. body req = Body b \<and> score b = Some sc \<and> int32 sc)"
    and "sum_list (map (\<lambda>req. points (spin_type req)) reqs) \<le> 2147483647"
    and "filter (\<lambda>r. us_user_id r = uid) (user_statistics (db s)) = []"
    and "track_results e reqs s = (rs, s')"
    and "\<forall>r\<in>set rs. status r = 200"
  shows "\<exists>row. fst (select_user_statistics uid s') = Some row \<and>
           us_total_points row = sum_list (map (\<lambda>req. points (spin_type req)) reqs) \<and>
           us_total_spins row = int (length reqs) \<and>
           us_highest_score row = Some (Max (set (map spin_score reqs)))"
proof -
  obtain req rest where reqs: "reqs = req # rest"
    using assms(1) by (cases reqs) auto
  obtain r s1 where step: "track_result e req s = (r, s1)"
    by (cases "track_result e req s")
  obtain rs' where rest: "track_results e rest s1 = (rs', s')" and rs: "rs = r # rs'"
    using assms(5) by (auto simp: reqs step split: prod.splits)
  from assms(2) obtain b sc where req:
    "http_method req \<noteq> ''OPTIONS''" "fst (authenticate e req s) = Inr uid"
    "body req = Body b" "score b = Some sc" "int32 sc"
    by (auto simp: reqs)
  have ok: "status r = 200" using assms(6) rs by simp
  from req(1,2,3) step ok obtain t w s0 where run: "type b = Some t"
    "user_statistics (db s0) = user_statistics (db s)"
    "s1 = update_statistics e uid t (score b) s0"
    by (rule track_result_200)
  have ty: "spin_type req = t" and sco: "spin_score req = sc"
    by (simp_all add: spin_type_def spin_score_def req(3,4) run(1))
  have "filter (\<lambda>r. us_user_id r = uid) (user_statistics (db s0)) = []"
    using assms(4) by (simp only: run(2))
  moreover have "spin_fits None t (Some sc)"
    using req(5) by (simp add: spin_fits_def)
  ultimately obtain row where row:
    "filter (\<lambda>r. us_user_id r = uid) (user_statistics (db s1)) = [row]"
    "us_total_spins row = 1" "us_total_points row = points t"
    "us_divine_count row = divineIncrement t" "us_reality_count row = realityIncrement t"
    "us_highest_score row = Some sc"
    using update_statistics_insert [of uid s0 t "Some sc" e]
    by (simp add: run(3) req(4))
  have inv: "0 \<le> us_divine_count row" "us_divine_count row \<le> us_total_spins row"
    "0 \<le> us_reality_count row" "us_reality_count row \<le> us_total_spins row"
    "0 \<le> us_total_spins row" "us_total_spins row \<le> us_total_points row"
    "us_total_points row + sum_list (map (\<lambda>req. points (spin_type req)) rest) \<le> 2147483647"
    using assms(3) points_pos [of t] increments_bounds [of t]
    by (simp_all add: row reqs ty)
  have "\<exists>row'. filter (\<lambda>r. us_user_id r = uid) (user_statistics (db s')) = [row'] \<and>
           us_total_spins row' = us_total_spins row + int (length rest) \<and>
           us_total_points row' =
             us_total_points row + sum_list (map (\<lambda>req. points (spin_type req)) rest) \<and>
           us_highest_score row' = Some (fold max (map spin_score rest) sc)"
    using track_results_accumulate [OF _ row(1,6) req(5) inv rest, of s] assms(2,6) reqs rs
    by simp
  moreover have "Max (set (map spin_score reqs)) = fold max (map spin_score rest) (spin_score req)"
    unfolding reqs list.map by (rule Max.set_eq_fold)
  ultimately show ?thesis
    by (auto simp only: row(2,3) ty sco fst_select_user_statistics maybeSingle.simps reqs
        list.map sum_list.Cons list.size length_Cons of_nat_Suc add.commute)
qed

theorem statistics_after_n_spins_witness:
  "\<exists>row. fst (select_user_statistics 7 (snd (track_results sample_env
        [spin (Some ''DIVINE'') (Some ''anko'') (Some 87),
         spin (Some ''VOID'') (Some ''sakura'') (Some 95),
         spin (Some ''REALITY'') (Some ''tenki'') (Some 40)] sample_state))) = Some row \<and>
      us_total_points row = 26 \<and> us_total_spins row = 3 \<and> us_highest_score row = Some 95"
proof -
  let ?reqs = "[spin (Some ''DIVINE'') (Some ''anko'') (Some 87),
         spin (Some ''VOID'') (Some ''sakura'') (Some 95),
         spin (Some ''REALITY'') (Some ''tenki'') (Some 40)]"
  have good: "\<forall>req\<in>set ?reqs. http_method req \<noteq> ''OPTIONS'' \<and>
             fst (authenticate sample_env req sample_state) = Inr 7 \<and>
             (\<exists>b sc. body req = Body b \<and> score b = Some sc \<and> int32 sc)"
    by (simp add: sample_post sample_gate sample_body int32_def)
  have room: "sum_list (map (\<lambda>req. points (spin_type req)) ?reqs) \<le> 2147483647"
    by (simp add: spin_type_def spin_def points_def)
  have new: "filter (\<lambda>r. us_user_id r = 7) (user_statistics (db sample_state)) = []"
    by (simp add: sample_state_def)
  have ok: "\<forall>r\<in>set (fst (track_results sample_env ?reqs sample_state)). status r = 200"
    by (simp add: eval_defs split: prod.splits)
  from statistics_after_n_spins [OF _ good room new surjective_pairing ok]
  show ?thesis
    by (simp add: spin_type_def spin_score_def spin_def points_def)
qed

text \<open>
  C3. A request that passed the gate and whose body, a JSON object, lacks \<^verbatim>\<open>type\<close> or
  lacks \<^verbatim>\<open>word\<close> is answered 400. The state it leaves differs from the one it found by the identity
  provider's call alone: no catalog lookup, no ledger or statistics call, and the tables
  as they were.
\<close>

theorem missing_field_400:
  assumes "http_method req \<noteq> ''OPTIONS''" and "fst (authenticate e req s) = Inr uid"
    and "body req = Body b" and "type b = None \<or> word b = None"
  shows "\<exists>token. track_result e req s =
           (json_response 400 (ErrorJson ''Missing required fields''),
            s\<lparr>calls := calls s @ [AuthGetUser token]\<rparr>)"
proof -
  obtain token where a: "authenticate e req s = (Inr uid, called (AuthGetUser token) s)"
    using authenticate_Inr [OF assms(2)] by blast
  have "\<not> truthy (type b) \<or> \<not> truthy (word b)"
    using assms(4) by auto
  then have "track_result e req s =
      (json_response 400 (ErrorJson ''Missing required fields''), called (AuthGetUser token) s)"
    using assms(1,3) by (simp add: track_result_def a)
  then show ?thesis
    by (auto simp: called_def)
qed

theorem missing_field_400_witness:
  "\<exists>token. track_result sample_env (spin None (Some ''anko'') (Some 87)) sample_state =
     (json_response 400 (ErrorJson ''Missing required fields''),
      sample_state\<lparr>calls := calls sample_state @ [AuthGetUser token]\<rparr>)"
  by (rule missing_field_400 [OF sample_post sample_gate sample_body]) simp

text \<open>
  C4. A \<^verbatim>\<open>DIVINE\<close> spin (past the gate, with a non-empty word, since an empty one is
  rejected before the lookup) whose word matches no catalog row is answered 404. The handler
  has then called the identity provider and looked the word up, and nothing else: the
  ledger and the statistics are as before, and no write was attempted.
\<close>

theorem unknown_divine_word_404:
  assumes "http_method req \<noteq> ''OPTIONS''" and "fst (authenticate e req s) = Inr uid"
    and "body req = Body b" and "type b = Some ''DIVINE''"
    and "word b = Some w" and "w \<noteq> []"
    and "filter (\<lambda>r. dw_word r = w) (divine_words (db s)) = []"
  shows "\<exists>token. track_result e req s =
           (json_response 404 (ErrorJson ''Divine word not found''),
            s\<lparr>calls := calls s @ [AuthGetUser token, SelectDivineWord w]\<rparr>)"
proof -
  obtain token where a: "authenticate e req s = (Inr uid, called (AuthGetUser token) s)"
    using authenticate_Inr [OF assms(2)] by blast
  have "fst (select_divine_word w (called (AuthGetUser token) s)) = None"
    using assms(7) by (simp add: select_divine_word_def called_def)
  then have "track_result e req s =
      (json_response 404 (ErrorJson ''Divine word not found''),
       snd (select_divine_word w (called (AuthGetUser token) s)))"
    using track_result_valid [OF assms(1,2,3,4) _ assms(5,6)]
    by (simp add: a Let_def)
  then show ?thesis
    by (auto simp: called_def select_divine_word_def)
qed

theorem unknown_divine_word_404_witness:
  "\<exists>token. track_result sample_env (spin (Some ''DIVINE'') (Some ''sakura'') (Some 87)) sample_state =
     (json_response 404 (ErrorJson ''Divine word not found''),
      sample_state\<lparr>calls := calls sample_state @ [AuthGetUser token, SelectDivineWord ''sakura'']\<rparr>)"
  by (rule unknown_divine_word_404 [OF sample_post sample_gate sample_body])
    (simp_all add: sample_state_def)

text \<open>
  C5. A \<^verbatim>\<open>VOID\<close> spin for a word that is not in the catalog, with a score beyond the
  \<^verbatim>\<open>integer\<close> column, is answered 200 and leaves the user without a statistics row; the
  same spin with an ordinary score, for a user whose \<^verbatim>\<open>total_spins\<close> is 2147483647, is
  answered 200 and leaves the row as it was. The database refuses the write and the
  handler does not read the error.
\<close>

theorem void_spin_beyond_int32:
  "status (fst (track_result sample_env
      (spin (Some ''VOID'') (Some ''sakura'') (Some 2147483648)) sample_state)) = 200 \<and>
   user_statistics (db (snd (track_result sample_env
      (spin (Some ''VOID'') (Some ''sakura'') (Some 2147483648)) sample_state))) = [] \<and>
   status (fst (track_result sample_env
      (spin (Some ''VOID'') (Some ''sakura'') (Some 12)) full_state)) = 200 \<and>
   user_statistics (db (snd (track_result sample_env
      (spin (Some ''VOID'') (Some ''sakura'') (Some 12)) full_state))) =
     user_statistics (db full_state) \<and>
   us_total_spins (hd (user_statistics (db full_state))) = 2147483647"
  by (simp add: eval_defs)

text \<open>
  C5, amended. A \<^verbatim>\<open>VOID\<close> spin (past the gate, with a non-empty word) whose word matches
  no catalog row is answered 200. The ledger is untouched and no ledger call is made (the
  calls are the identity provider's, the catalog lookup, the statistics lookup and one
  statistics write). When the score and the incremented counters fit the \<^verbatim>\<open>integer\<close>
  columns, the user's statistics row counts one spin and one point more than before.
\<close>

theorem void_unknown_word_200:
  assumes "http_method req \<noteq> ''OPTIONS''" and "fst (authenticate e req s) = Inr uid"
    and "body req = Body b" and "type b = Some ''VOID''"
    and "word b = Some w" and "w \<noteq> []"
    and "filter (\<lambda>r. dw_word r = w) (divine_words (db s)) = []"
    and "length (filter (\<lambda>r. us_user_id r = uid) (user_statistics (db s))) \<le> 1"
    and "track_result e req s = (r, s')"
  shows "status r = 200 \<and>
     user_collections (db s') = user_collections (db s) \<and>
     (\<exists>token c. calls s' =
        calls s @ [AuthGetUser token, SelectDivineWord w, SelectUserStatistics uid, c] \<and>
        ((\<exists>p. c = InsertUserStatistics p) \<or> (\<exists>rid p. c = UpdateUserStatistics rid p))) \<and>
     (spin_fits (fst (select_user_statistics uid s)) ''VOID'' (score b) \<longrightarrow>
        (\<exists>row. fst (select_user_statistics uid s') = Some row \<and>
           us_total_spins row =
             (case fst (select_user_statistics uid s) of
                None \<Rightarrow> 0 | Some st \<Rightarrow> us_total_spins st) + 1 \<and>
           us_total_points row =
             (case fst (select_user_statistics uid s) of
                None \<Rightarrow> 0 | Some st \<Rightarrow> us_total_points st) + 1))"
proof -
  obtain token where a: "authenticate e req s = (Inr uid, called (AuthGetUser token) s)"
    using authenticate_Inr [OF assms(2)] by blast
  let ?s1 = "called (AuthGetUser token) s"
  let ?s2 = "snd (select_divine_word w ?s1)"
  have none: "fst (select_divine_word w ?s1) = None"
    using assms(7) by (simp add: select_divine_word_def called_def)
  have run: "track_result e req s =
      (json_response 200 (SuccessJson ''Oracle result tracked successfully''),
       update_statistics e uid ''VOID'' (score b) ?s2)"
    using track_result_valid [OF assms(1,2,3,4) _ assms(5,6)]
    by (simp add: a Let_def none)
  then have r: "status r = 200" and s': "s' = update_statistics e uid ''VOID'' (score b) ?s2"
    using assms(9) by (simp_all add: json_response_def)
  have tab: "user_statistics (db ?s2) = user_statistics (db s)"
    by (simp add: called_def)
  have st: "\<exists>row. fst (select_user_statistics uid s') = Some row \<and>
        us_total_spins row =
          (case fst (select_user_statistics uid s) of
             None \<Rightarrow> 0 | Some st \<Rightarrow> us_total_spins st) + 1 \<and>
        us_total_points row =
          (case fst (select_user_statistics uid s) of
             None \<Rightarrow> 0 | Some st \<Rightarrow> us_total_points st) + 1"
    if "spin_fits (fst (select_user_statistics uid s)) ''VOID'' (score b)"
    using recorded_spin_statistics [OF assms(8) tab that, of e]
    by (auto simp: s' points_def)
  have led: "user_collections (db s') = user_collections (db s)"
    by (simp add: s' called_def)
  have cs: "\<exists>c. calls s' =
        calls s @ [AuthGetUser token, SelectDivineWord w, SelectUserStatistics uid, c] \<and>
        ((\<exists>p. c = InsertUserStatistics p) \<or> (\<exists>rid p. c = UpdateUserStatistics rid p))"
    by (simp add: s' calls_update_statistics called_def split: option.splits)
  from r led cs st show ?thesis by blast
qed

theorem void_unknown_word_200_witness:
  "status (fst (track_result sample_env (spin (Some ''VOID'') (Some ''sakura'') (Some 12))
      sample_state)) = 200 \<and>
   user_collections (db (snd (track_result sample_env
      (spin (Some ''VOID'') (Some ''sakura'') (Some 12)) sample_state))) = [] \<and>
   (\<exists>row. fst (select_user_statistics 7 (snd (track_result sample_env
        (spin (Some ''VOID'') (Some ''sakura'') (Some 12)) sample_state))) = Some row \<and>
      us_total_spins row = 1 \<and> us_total_points row = 1) \<and>
   (\<exists>row. fst (select_user_statistics 7 (snd (track_result sample_env
        (spin (Some ''VOID'') (Some ''sakura'') (Some 12)) played_state))) = Some row \<and>
      us_total_spins row = 2 \<and> us_total_points row = 21)"
proof -
  let ?req = "spin (Some ''VOID'') (Some ''sakura'') (Some 12)"
  have cat: "filter (\<lambda>r. dw_word r = ''sakura'') (divine_words (db sample_state)) = []"
    by (simp add: sample_state_def)
  have cat2: "filter (\<lambda>r. dw_word r = ''sakura'') (divine_words (db played_state)) = []"
    by (simp add: played_state_def sample_state_def)
  have fits: "spin_fits (fst (select_user_statistics 7 sample_state)) ''VOID'' (Some 12)"
    by (simp add: eval_defs)
  have fits2: "spin_fits (fst (select_user_statistics 7 played_state)) ''VOID'' (Some 12)"
    by (simp add: eval_defs)
  from void_unknown_word_200 [where w = "''sakura''" and req = ?req,
      OF sample_post sample_gate sample_body _ _ _ cat
      sample_statistics_unique surjective_pairing, simplified] fits
  have 1: "status (fst (track_result sample_env ?req sample_state)) = 200 \<and>
     user_collections (db (snd (track_result sample_env ?req sample_state))) = [] \<and>
     (\<exists>row. fst (select_user_statistics 7 (snd (track_result sample_env ?req
        sample_state))) = Some row \<and> us_total_spins row = 1 \<and> us_total_points row = 1)"
    by (simp add: fst_select_user_statistics sample_state_def)
  from void_unknown_word_200 [where w = "''sakura''" and req = ?req,
      OF sample_post sample_gate sample_body _ _ _ cat2
      played_statistics_unique surjective_pairing, simplified] fits2
  have 2: "\<exists>row. fst (select_user_statistics 7 (snd (track_result sample_env ?req
        played_state))) = Some row \<and> us_total_spins row = 2 \<and> us_total_points row = 21"
    by (simp add: fst_select_user_statistics played_state_def)
  from 1 2 show ?thesis by simp
qed

text \<open>
  C6. Two spins of one user for the same catalog word, the first finding no ledger entry
  for it. After the first the entry has \<^verbatim>\<open>found_count = 1\<close>; after the second it is the
  same entry with \<^verbatim>\<open>found_count = 2\<close> and a new \<^verbatim>\<open>updated_at\<close>, every other column
  (\<^verbatim>\<open>first_found_at\<close> among them) as the first spin wrote it.
\<close>

theorem second_spin_same_word:
  assumes "http_method req1 \<noteq> ''OPTIONS''" and "fst (authenticate e req1 s) = Inr uid"
    and "body req1 = Body b1" and "type b1 = Some t1" and "t1 \<noteq> []" and "word b1 = Some w"
    and "http_method req2 \<noteq> ''OPTIONS''" and "fst (authenticate e req2 s) = Inr uid"
    and "body req2 = Body b2" and "type b2 = Some t2" and "t2 \<noteq> []" and "word b2 = Some w"
    and "w \<noteq> []"
    and "filter (\<lambda>d. dw_word d = w) (divine_words (db s)) = [dw]"
    and "filter (\<lambda>r. uc_user_id r = uid \<and> uc_divine_word_id r = dw_id dw)
           (user_collections (db s)) = []"
    and "s1 = snd (track_result e req1 s)" and "s2 = snd (track_result e req2 s1)"
  shows "\<exists>row1 row2.
           fst (select_user_collection uid (dw_id dw) s1) = Some row1 \<and>
           uc_found_count row1 = 1 \<and>
           fst (select_user_collection uid (dw_id dw) s2) = Some row2 \<and>
           uc_found_count row2 = 2 \<and>
           uc_first_found_at row2 = uc_first_found_at row1 \<and>
           row2 = row1\<lparr>uc_found_count := 2, uc_updated_at := uc_updated_at row2\<rparr>"
proof -
  let ?Q = "\<lambda>r. uc_user_id r = uid \<and> uc_divine_word_id r = dw_id dw"
  obtain s0 where s0: "db s0 = db s"
    "user_collections (db s1) = user_collections (db (update_collection e uid (Some dw) s0))"
    using recorded_spin_ledger [OF assms(1-6) assms(13,14)] assms(16) by blast
  have "filter ?Q (user_collections (db s0)) = []"
    using assms(15) s0(1) by simp
  from update_collection_insert [OF this, of e]
  obtain row1 where row1: "filter ?Q (user_collections (db s1)) = [row1]"
    and "uc_found_count row1 = 1"
    by (simp add: s0(2))
  have gate2: "fst (authenticate e req2 s1) = Inr uid"
    using assms(8) authenticate_fst [of e req2 s1 s] by simp
  have cat: "filter (\<lambda>d. dw_word d = w) (divine_words (db s1)) = [dw]"
    using assms(14) by (simp add: assms(16))
  obtain s0' where s0': "db s0' = db s1"
    "user_collections (db s2) = user_collections (db (update_collection e uid (Some dw) s0'))"
    using recorded_spin_ledger [OF assms(7) gate2 assms(9-13) cat] assms(17) by blast
  have again: "filter ?Q (user_collections (db s0')) = [row1]"
    using row1 s0'(1) by simp
  have "0 \<le> uc_found_count row1" and "uc_found_count row1 < 2147483647"
    using \<open>uc_found_count row1 = 1\<close> by simp_all
  from update_collection_update [OF again this, of e] \<open>uc_found_count row1 = 1\<close>
  have "filter ?Q (user_collections (db s2)) =
      [row1\<lparr>uc_found_count := 2, uc_updated_at := clock e (ticks s0')\<rparr>]"
    by (simp add: s0'(2))
  with row1 \<open>uc_found_count row1 = 1\<close> show ?thesis
    by (simp add: fst_select_user_collection)
qed

theorem second_spin_same_word_witness:
  "\<exists>row1 row2.
     fst (select_user_collection 7 1 (snd (track_result sample_env
        (spin (Some ''DIVINE'') (Some ''anko'') (Some 87)) sample_state))) = Some row1 \<and>
     uc_found_count row1 = 1 \<and>
     fst (select_user_collection 7 1 (snd (track_result sample_env
        (spin (Some ''VOID'') (Some ''anko'') (Some 3))
        (snd (track_result sample_env
           (spin (Some ''DIVINE'') (Some ''anko'') (Some 87)) sample_state))))) = Some row2 \<and>
     uc_found_count row2 = 2 \<and>
     uc_first_found_at row2 = uc_first_found_at row1 \<and>
     row2 = row1\<lparr>uc_found_count := 2, uc_updated_at := uc_updated_at row2\<rparr>"
proof -
  let ?dw = "\<lparr>dw_id = 1, dw_word = ''anko'', dw_rarity = ''SSR''\<rparr>"
  have cat: "filter (\<lambda>d. dw_word d = ''anko'') (divine_words (db sample_state)) = [?dw]"
    by (simp add: sample_state_def)
  have new: "filter (\<lambda>r. uc_user_id r = 7 \<and> uc_divine_word_id r = dw_id ?dw)
      (user_collections (db sample_state)) = []"
    by (simp add: sample_state_def)
  from second_spin_same_word [where ?t1.0 = "''DIVINE''" and ?t2.0 = "''VOID''"
      and w = "''anko''" and ?req1.0 = "spin (Some ''DIVINE'') (Some ''anko'') (Some 87)"
      and ?req2.0 = "spin (Some ''VOID'') (Some ''anko'') (Some 3)",
      OF sample_post sample_gate sample_body _ _ _
      sample_post sample_gate sample_body _ _ _ _ cat new refl refl, simplified]
  show ?thesis by simp
qed

subsection \<open>Completion percentage\<close>

text \<open>
  What a profile answer reports: \<open>completionPercent\<close> of the number of the user's ledger
  rows and the number of catalog rows.
\<close>

lemma profile_reader_completion:
  assumes "profile_reader e req s = (r, s')" and "json r = ProfileJson p"
  shows "completion_percent p = completionPercent (completion_collected p) (completion_total p)"
    and "completion_total p = length (divine_words (db s))"
    and "\<exists>uid. fst (authenticate e req s) = Inr uid \<and>
           completion_collected p =
             length (filter (\<lambda>c. uc_user_id c = uid) (user_collections (db s)))"
proof -
  have m: "http_method req \<noteq> ''OPTIONS''"
    using assms by (auto simp: profile_reader_def)
  obtain a s1 where a: "authenticate e req s = (a, s1)"
    by (cases "authenticate e req s")
  then obtain uid where uid: "a = Inr uid"
    using assms m
    by (cases a) (auto simp: profile_reader_def authenticate_def json_response_def Let_def
        split: option.splits if_splits prod.splits)
  have d: "db s1 = db s"
    using db_authenticate [of e req s] a by simp
  let ?items = "fst (select_user_collections uid
      (snd (select_user_statistics uid s1)))"
  have p: "p = \<lparr>stats = (case fst (select_user_statistics uid s1) of
                  Some row \<Rightarrow> StatsRow row | None \<Rightarrow> StatsLiteral 0 0 0 0 0 None),
      collections_total = length ?items,
      collections_ssr = length (filter (has_rarity ''SSR'') ?items),
      collections_sr = length (filter (has_rarity ''SR'') ?items),
      collections_items = ?items,
      completion_percent = completionPercent (length ?items) (length (divine_words (db s))),
      completion_collected = length ?items,
      completion_total = length (divine_words (db s))\<rparr>"
    using assms m
    by (auto simp: profile_reader_def a uid d Let_def json_response_def
        select_divine_words_def select_user_collections_def select_user_statistics_def
        called_def split: prod.splits if_splits)
  have n: "length ?items = length (filter (\<lambda>c. uc_user_id c = uid) (user_collections (db s)))"
    by (simp add: select_user_collections_def select_user_statistics_def called_def d)
  show "completion_percent p = completionPercent (completion_collected p) (completion_total p)"
    and "completion_total p = length (divine_words (db s))"
    by (simp_all add: p)
  show "\<exists>uid. fst (authenticate e req s) = Inr uid \<and>
           completion_collected p =
             length (filter (\<lambda>c. uc_user_id c = uid) (user_collections (db s)))"
    using n by (simp add: a uid p)
qed

lemma completionPercent_empty_catalog: "completionPercent collected 0 = 0"
  by (simp add: completionPercent_def)

text \<open>With the 17 words the migration seeds, every count gives the exact floor.\<close>

lemma completionPercent_seeded_catalog:
  "list_all (\<lambda>c. completionPercent c 17 = (100 * int c) div 17) [0..<18]"
  by code_simp

text \<open>
  C7. The profile reader computes the percentage in double arithmetic,
  \<^verbatim>\<open>Math.floor((collectedWords / totalWords) * 100)\<close>. With 29 of 50 words collected the
  quotient rounds to a double just below 0.58, its product with 100 to a double just
  below 58, and the handler reports 57, where \<open>floor (100 * 29 / 50) = 58\<close>. With
  an empty catalog it reports 0 (\<open>completionPercent_empty_catalog\<close>).
\<close>

theorem completionPercent_29_of_50:
  "completionPercent 29 50 = 57 \<and> (100 * 29) div 50 = (58 :: int)"
  by code_simp

subsection \<open>The gate, and the two implicit claims\<close>

text \<open>
  C8. A CORS preflight has no \<^verbatim>\<open>Authorization\<close> header, and both handlers answer it 200
  before they look at the header.
\<close>

theorem preflight_without_authorization_200:
  "authorization preflight = None \<and>
   status (fst (track_result sample_env preflight sample_state)) = 200 \<and>
   status (fst (profile_reader sample_env preflight sample_state)) = 200"
  by (simp add: preflight_def track_result_def profile_reader_def)

text \<open>
  C8, amended. A request other than \<^verbatim>\<open>OPTIONS\<close> without the \<^verbatim>\<open>Authorization\<close> header
  is answered 401 by both handlers, and the state is the one it found: neither the
  identity provider nor a table was called.
\<close>

theorem no_authorization_401:
  assumes "http_method req \<noteq> ''OPTIONS''" and "authorization req = None"
  shows "track_result e req s =
           (json_response 401 (ErrorJson ''Missing authorization header''), s) \<and>
         profile_reader e req s =
           (json_response 401 (ErrorJson ''Missing authorization header''), s)"
  using assms by (simp add: track_result_def profile_reader_def authenticate_def)

theorem no_authorization_401_witness:
  "track_result sample_env anonymous_post sample_state =
     (json_response 401 (ErrorJson ''Missing authorization header''), sample_state) \<and>
   profile_reader sample_env anonymous_post sample_state =
     (json_response 401 (ErrorJson ''Missing authorization header''), sample_state)"
  by (rule no_authorization_401) (simp_all add: anonymous_post_def)

text \<open>
  C9. A request that passed the gate, with non-empty \<^verbatim>\<open>type\<close> and \<^verbatim>\<open>word\<close> and no
  \<^verbatim>\<open>score\<close>, is not answered 400: the answer is 200 or 404, and the catalog lookup
  follows the identity provider's call. When the answer is 200 the statistics row is
  written from the absent score. For a first spin the insert sends \<^verbatim>\<open>undefined\<close>, the
  key is left out and the new row has the column's default, 0. Otherwise the update
  sends \<^verbatim>\<open>Math.max(stored, undefined)\<close>, which is \<^verbatim>\<open>NaN\<close> and is serialised \<^verbatim>\<open>null\<close>:
  when the incremented counters fit their columns, the row counts one spin more and its
  \<^verbatim>\<open>highest_score\<close> is empty.
\<close>

theorem score_absent_accepted:
  assumes "http_method req \<noteq> ''OPTIONS''" and "fst (authenticate e req s) = Inr uid"
    and "body req = Body b" and "type b = Some t" and "t \<noteq> []"
    and "word b = Some w" and "w \<noteq> []" and "score b = None"
    and "length (filter (\<lambda>r. us_user_id r = uid) (user_statistics (db s))) \<le> 1"
    and "track_result e req s = (r, s')"
  shows "(status r = 200 \<or> status r = 404) \<and>
     (\<exists>token cs. calls s' = calls s @ AuthGetUser token # SelectDivineWord w # cs) \<and>
     (status r = 200 \<longrightarrow>
        (case fst (select_user_statistics uid s) of
           None \<Rightarrow>
             (\<exists>p. last (calls s') = InsertUserStatistics p \<and> si_highest_score p = JUndefined) \<and>
             (\<exists>row. fst (select_user_statistics uid s') = Some row \<and>
                us_total_spins row = 1 \<and> us_highest_score row = Some 0)
         | Some st \<Rightarrow>
             (\<exists>p. last (calls s') = UpdateUserStatistics (us_id st) p \<and>
                su_highest_score p = JNaN) \<and>
             (spin_fits (Some st) t None \<longrightarrow>
                (\<exists>row. fst (select_user_statistics uid s') = Some row \<and>
                   us_total_spins row = us_total_spins st + 1 \<and>
                   us_highest_score row = None))))"
proof -
  obtain token where a: "authenticate e req s = (Inr uid, called (AuthGetUser token) s)"
    using authenticate_Inr [OF assms(2)] by blast
  let ?s1 = "called (AuthGetUser token) s"
  let ?s2 = "snd (select_divine_word w ?s1)"
  let ?dw = "fst (select_divine_word w ?s1)"
  note run = track_result_valid [OF assms(1-7), unfolded a Let_def snd_conv]
  show ?thesis
  proof (cases "?dw = None \<and> t \<noteq> ''VOID''")
    case True
    then have "r = json_response 404 (ErrorJson ''Divine word not found'')" and "s' = ?s2"
      using run assms(10) by simp_all
    then show ?thesis
      by (simp add: json_response_def called_def)
  next
    case False
    let ?sc = "update_collection e uid ?dw ?s2"
    from False have r: "status r = 200"
      and s': "s' = update_statistics e uid t None ?sc"
      using run assms(8,10) by (auto simp: json_response_def)
    obtain cs where cs: "calls ?sc = calls ?s2 @ cs"
      using calls_update_collection by blast
    have c2: "calls ?s2 = calls s @ [AuthGetUser token, SelectDivineWord w]"
      by (simp add: called_def)
    have first: "\<exists>cs'. calls s' = calls s @ AuthGetUser token # SelectDivineWord w # cs'"
      unfolding s' calls_update_statistics cs c2 by simp
    have tab: "user_statistics (db ?sc) = user_statistics (db s)"
      by (simp add: called_def)
    have same: "fst (select_user_statistics uid ?sc) = fst (select_user_statistics uid s)"
      using tab by (rule select_user_statistics_cong)
    have "case fst (select_user_statistics uid s) of
           None \<Rightarrow>
             (\<exists>p. last (calls s') = InsertUserStatistics p \<and> si_highest_score p = JUndefined) \<and>
             (\<exists>row. fst (select_user_statistics uid s') = Some row \<and>
                us_total_spins row = 1 \<and> us_highest_score row = Some 0)
         | Some st \<Rightarrow>
             (\<exists>p. last (calls s') = UpdateUserStatistics (us_id st) p \<and>
                su_highest_score p = JNaN) \<and>
             (spin_fits (Some st) t None \<longrightarrow>
                (\<exists>row. fst (select_user_statistics uid s') = Some row \<and>
                   us_total_spins row = us_total_spins st + 1 \<and>
                   us_highest_score row = None))"
    proof (cases "fst (select_user_statistics uid s)")
      case None
      then have fits: "spin_fits (fst (select_user_statistics uid s)) t None"
        by (simp add: spin_fits_def)
      have "\<exists>p. last (calls s') = InsertUserStatistics p \<and> si_highest_score p = JUndefined"
        by (simp add: s' calls_update_statistics same None of_field_def)
      moreover have "\<exists>row. fst (select_user_statistics uid s') = Some row \<and>
                us_total_spins row = 1 \<and> us_highest_score row = Some 0"
        using recorded_spin_statistics [OF assms(9) tab fits, of e] None
        by (auto simp: s')
      ultimately show ?thesis by (simp add: None)
    next
      case (Some st)
      have "\<exists>p. last (calls s') = UpdateUserStatistics (us_id st) p \<and>
                su_highest_score p = JNaN"
        by (simp add: s' calls_update_statistics same Some of_field_def Math_max_undefined)
      moreover have "\<exists>row. fst (select_user_statistics uid s') = Some row \<and>
                   us_total_spins row = us_total_spins st + 1 \<and>
                   us_highest_score row = None"
        if "spin_fits (Some st) t None"
      proof -
        have "spin_fits (fst (select_user_statistics uid s)) t None"
          using that Some by simp
        from recorded_spin_statistics [OF assms(9) tab this, of e] Some
        show ?thesis by (auto simp: s')
      qed
      ultimately show ?thesis by (simp add: Some)
    qed
    with first r show ?thesis by blast
  qed
qed

theorem score_absent_accepted_witness:
  "status (fst (track_result sample_env (spin (Some ''DIVINE'') (Some ''anko'') None)
      sample_state)) = 200 \<and>
   (\<exists>p. last (calls (snd (track_result sample_env
        (spin (Some ''DIVINE'') (Some ''anko'') None) sample_state))) = InsertUserStatistics p \<and>
      si_highest_score p = JUndefined) \<and>
   (\<exists>row. fst (select_user_statistics 7 (snd (track_result sample_env
        (spin (Some ''DIVINE'') (Some ''anko'') None) sample_state))) = Some row \<and>
      us_total_spins row = 1 \<and> us_highest_score row = Some 0) \<and>
   status (fst (track_result sample_env (spin (Some ''DIVINE'') (Some ''anko'') None)
      played_state)) = 200 \<and>
   (\<exists>row. fst (select_user_statistics 7 (snd (track_result sample_env
        (spin (Some ''DIVINE'') (Some ''anko'') None) played_state))) = Some row \<and>
      us_total_spins row = 2 \<and> us_highest_score row = None)"
proof -
  let ?req = "spin (Some ''DIVINE'') (Some ''anko'') None"
  have ok: "status (fst (track_result sample_env ?req sample_state)) = 200"
    by (simp add: eval_defs)
  have ok2: "status (fst (track_result sample_env ?req played_state)) = 200"
    by (simp add: eval_defs)
  have fresh: "fst (select_user_statistics 7 sample_state) = None"
    by (simp add: eval_defs)
  have played: "fst (select_user_statistics 7 played_state) =
      Some (hd (user_statistics (db played_state)))"
    by (simp add: eval_defs)
  have fits: "spin_fits (Some (hd (user_statistics (db played_state)))) ''DIVINE'' None"
    by (simp add: eval_defs)
  from score_absent_accepted [where t = "''DIVINE''" and w = "''anko''" and req = ?req
      and s = sample_state,
      OF sample_post sample_gate sample_body _ _ _ _ _ sample_statistics_unique
        surjective_pairing, simplified] ok
  have 1: "(\<exists>p. last (calls (snd (track_result sample_env ?req sample_state))) =
        InsertUserStatistics p \<and> si_highest_score p = JUndefined) \<and>
     (\<exists>row. fst (select_user_statistics 7 (snd (track_result sample_env ?req
        sample_state))) = Some row \<and> us_total_spins row = 1 \<and> us_highest_score row = Some 0)"
    by (simp add: fresh)
  from score_absent_accepted [where t = "''DIVINE''" and w = "''anko''" and req = ?req
      and s = played_state,
      OF sample_post sample_gate sample_body _ _ _ _ _ played_statistics_unique
        surjective_pairing, simplified] ok2 fits
  have 2: "\<exists>row. fst (select_user_statistics 7 (snd (track_result sample_env ?req
        played_state))) = Some row \<and> us_total_spins row = 2 \<and> us_highest_score row = None"
    by (simp add: played) (simp add: played_state_def)
  from ok ok2 1 2 show ?thesis by simp
qed

text \<open>
  C10. A request that passed the gate with a non-empty \<^verbatim>\<open>type\<close> that is none of the
  three tiers. When the word is absent from the catalog the answer is 404 and the tables
  are as before. When it is in the catalog the answer is 200 and the ledger is updated
  as for any known word: an entry with \<^verbatim>\<open>found_count = 1\<close> appears where there was none,
  an existing entry (with room in its column) has its count incremented and its
  \<^verbatim>\<open>updated_at\<close> renewed, and the ledger ends as it does for the same request with any
  other non-empty type. The statistics write carries one point and no tier increment,
  the scoring of \<^verbatim>\<open>VOID\<close>, and when it fits its columns the row gains one point and
  nothing in \<^verbatim>\<open>divine_count\<close> or \<^verbatim>\<open>reality_count\<close>.
\<close>

theorem other_type_scored_as_void:
  assumes "http_method req \<noteq> ''OPTIONS''" and "fst (authenticate e req s) = Inr uid"
    and "body req = Body b" and "type b = Some t" and "t \<noteq> []"
    and "t \<noteq> ''DIVINE''" and "t \<noteq> ''REALITY''" and "t \<noteq> ''VOID''"
    and "word b = Some w" and "w \<noteq> []"
    and "length (filter (\<lambda>r. us_user_id r = uid) (user_statistics (db s))) \<le> 1"
    and "track_result e req s = (r, s')"
  shows "(filter (\<lambda>d. dw_word d = w) (divine_words (db s)) = [] \<longrightarrow>
        status r = 404 \<and> db s' = db s) \<and>
     (\<forall>dw. filter (\<lambda>d. dw_word d = w) (divine_words (db s)) = [dw] \<longrightarrow>
        status r = 200 \<and>
        (filter (\<lambda>c. uc_user_id c = uid \<and> uc_divine_word_id c = dw_id dw)
           (user_collections (db s)) = [] \<longrightarrow>
         (\<exists>row. filter (\<lambda>c. uc_user_id c = uid \<and> uc_divine_word_id c = dw_id dw)
              (user_collections (db s')) = [row] \<and>
            uc_user_id row = uid \<and> uc_divine_word_id row = dw_id dw \<and>
            uc_found_count row = 1)) \<and>
        (\<forall>ex. filter (\<lambda>c. uc_user_id c = uid \<and> uc_divine_word_id c = dw_id dw)
              (user_collections (db s)) = [ex] \<and>
            0 \<le> uc_found_count ex \<and> uc_found_count ex < 2147483647 \<longrightarrow>
         (\<exists>u. filter (\<lambda>c. uc_user_id c = uid \<and> uc_divine_word_id c = dw_id dw)
              (user_collections (db s')) =
            [ex\<lparr>uc_found_count := uc_found_count ex + 1, uc_updated_at := u\<rparr>])) \<and>
        (\<forall>t'. t' \<noteq> [] \<longrightarrow>
           user_collections (db s') =
           user_collections (db (snd (track_result e
              (req\<lparr>body := Body (b\<lparr>type := Some t'\<rparr>)\<rparr>) s)))) \<and>
        (case fst (select_user_statistics uid s) of
           None \<Rightarrow>
             \<exists>p. last (calls s') = InsertUserStatistics p \<and> si_total_points p = 1 \<and>
               si_divine_count p = 0 \<and> si_reality_count p = 0
         | Some st \<Rightarrow>
             \<exists>p. last (calls s') = UpdateUserStatistics (us_id st) p \<and>
               su_total_points p = us_total_points st + 1 \<and>
               su_divine_count p = us_divine_count st \<and>
               su_reality_count p = us_reality_count st) \<and>
        (spin_fits (fst (select_user_statistics uid s)) t (score b) \<longrightarrow>
         (\<exists>row. fst (select_user_statistics uid s') = Some row \<and>
            us_total_points row =
              (case fst (select_user_statistics uid s) of
                 None \<Rightarrow> 0 | Some st \<Rightarrow> us_total_points st) + 1 \<and>
            us_divine_count row =
              (case fst (select_user_statistics uid s) of
                 None \<Rightarrow> 0 | Some st \<Rightarrow> us_divine_count st) \<and>
            us_reality_count row =
              (case fst (select_user_statistics uid s) of
                 None \<Rightarrow> 0 | Some st \<Rightarrow> us_reality_count st))))"
proof -
  let ?s1 = "snd (authenticate e req s)"
  let ?s2 = "snd (select_divine_word w ?s1)"
  let ?dw = "fst (select_divine_word w ?s1)"
  have look: "?dw = maybeSingle (filter (\<lambda>d. dw_word d = w) (divine_words (db s)))"
    by (simp add: fst_select_divine_word)
  note run = track_result_valid [OF assms(1-5) assms(9,10), unfolded Let_def]
  have absent: "status r = 404 \<and> db s' = db s"
    if "filter (\<lambda>d. dw_word d = w) (divine_words (db s)) = []"
  proof -
    have "r = json_response 404 (ErrorJson ''Divine word not found'')" and "s' = ?s2"
      using run assms(8,12) that by (simp_all add: look)
    then show ?thesis by (simp add: json_response_def)
  qed
  have present: "status r = 200 \<and>
        (filter (\<lambda>c. uc_user_id c = uid \<and> uc_divine_word_id c = dw_id dw)
           (user_collections (db s)) = [] \<longrightarrow>
         (\<exists>row. filter (\<lambda>c. uc_user_id c = uid \<and> uc_divine_word_id c = dw_id dw)
              (user_collections (db s')) = [row] \<and>
            uc_user_id row = uid \<and> uc_divine_word_id row = dw_id dw \<and>
            uc_found_count row = 1)) \<and>
        (\<forall>ex. filter (\<lambda>c. uc_user_id c = uid \<and> uc_divine_word_id c = dw_id dw)
              (user_collections (db s)) = [ex] \<and>
            0 \<le> uc_found_count ex \<and> uc_found_count ex < 2147483647 \<longrightarrow>
         (\<exists>u. filter (\<lambda>c. uc_user_id c = uid \<and> uc_divine_word_id c = dw_id dw)
              (user_collections (db s')) =
            [ex\<lparr>uc_found_count := uc_found_count ex + 1, uc_updated_at := u\<rparr>])) \<and>
        (\<forall>t'. t' \<noteq> [] \<longrightarrow>
           user_collections (db s') =
           user_collections (db (snd (track_result e
              (req\<lparr>body := Body (b\<lparr>type := Some t'\<rparr>)\<rparr>) s)))) \<and>
        (case fst (select_user_statistics uid s) of
           None \<Rightarrow>
             \<exists>p. last (calls s') = InsertUserStatistics p \<and> si_total_points p = 1 \<and>
               si_divine_count p = 0 \<and> si_reality_count p = 0
         | Some st \<Rightarrow>
             \<exists>p. last (calls s') = UpdateUserStatistics (us_id st) p \<and>
               su_total_points p = us_total_points st + 1 \<and>
               su_divine_count p = us_divine_count st \<and>
               su_reality_count p = us_reality_count st) \<and>
        (spin_fits (fst (select_user_statistics uid s)) t (score b) \<longrightarrow>
         (\<exists>row. fst (select_user_statistics uid s') = Some row \<and>
            us_total_points row =
              (case fst (select_user_statistics uid s) of
                 None \<Rightarrow> 0 | Some st \<Rightarrow> us_total_points st) + 1 \<and>
            us_divine_count row =
              (case fst (select_user_statistics uid s) of
                 None \<Rightarrow> 0 | Some st \<Rightarrow> us_divine_count st) \<and>
            us_reality_count row =
              (case fst (select_user_statistics uid s) of
                 None \<Rightarrow> 0 | Some st \<Rightarrow> us_reality_count st)))"
    if dw: "filter (\<lambda>d. dw_word d = w) (divine_words (db s)) = [dw]" for dw
  proof -
    let ?Q = "\<lambda>c. uc_user_id c = uid \<and> uc_divine_word_id c = dw_id dw"
    let ?sc = "update_collection e uid (Some dw) ?s2"
    have found: "?dw = Some dw" by (simp add: look dw)
    have r: "status r = 200" and s': "s' = update_statistics e uid t (score b) ?sc"
      using run assms(12) by (simp_all add: found json_response_def)
    have led: "user_collections (db s') = user_collections (db ?sc)"
      by (simp add: s')
    have before: "user_collections (db ?s2) = user_collections (db s)"
      by simp
    have ins: "\<exists>row. filter ?Q (user_collections (db s')) = [row] \<and>
            uc_user_id row = uid \<and> uc_divine_word_id row = dw_id dw \<and>
            uc_found_count row = 1"
      if "filter ?Q (user_collections (db s)) = []"
    proof -
      have "filter ?Q (user_collections (db ?s2)) = []"
        using that by (simp only: before)
      from update_collection_insert [OF this, of e] show ?thesis
        by (simp add: led)
    qed
    have upd: "\<exists>u. filter ?Q (user_collections (db s')) =
            [ex\<lparr>uc_found_count := uc_found_count ex + 1, uc_updated_at := u\<rparr>]"
      if "filter ?Q (user_collections (db s)) = [ex] \<and>
            0 \<le> uc_found_count ex \<and> uc_found_count ex < 2147483647" for ex
    proof -
      have "filter ?Q (user_collections (db ?s2)) = [ex]"
        using that by (simp only: before)
      from update_collection_update [OF this, of e] that show ?thesis
        by (auto simp: led)
    qed
    have ledger: "user_collections (db s') =
           user_collections (db (snd (track_result e
              (req\<lparr>body := Body (b\<lparr>type := Some t'\<rparr>)\<rparr>) s)))" if "t' \<noteq> []" for t'
    proof -
      have "track_result e (req\<lparr>body := Body (b\<lparr>type := Some t'\<rparr>)\<rparr>) s =
          (json_response 200 (SuccessJson ''Oracle result tracked successfully''),
           update_statistics e uid t' (score b) ?sc)"
        using track_result_valid [of "req\<lparr>body := Body (b\<lparr>type := Some t'\<rparr>)\<rparr>" e s uid
            "b\<lparr>type := Some t'\<rparr>" t' w] assms(1,2,9,10) that
        by (simp add: Let_def found)
      then show ?thesis by (simp add: s')
    qed
    have tab: "user_statistics (db ?sc) = user_statistics (db s)" by simp
    have same: "fst (select_user_statistics uid ?sc) = fst (select_user_statistics uid s)"
      using tab by (rule select_user_statistics_cong)
    have sent: "case fst (select_user_statistics uid s) of
           None \<Rightarrow>
             \<exists>p. last (calls s') = InsertUserStatistics p \<and> si_total_points p = 1 \<and>
               si_divine_count p = 0 \<and> si_reality_count p = 0
         | Some st \<Rightarrow>
             \<exists>p. last (calls s') = UpdateUserStatistics (us_id st) p \<and>
               su_total_points p = us_total_points st + 1 \<and>
               su_divine_count p = us_divine_count st \<and>
               su_reality_count p = us_reality_count st"
      using assms(6,7)
      by (simp add: s' calls_update_statistics same points_def divineIncrement_def
          realityIncrement_def split: option.splits)
    have stored: "\<exists>row. fst (select_user_statistics uid s') = Some row \<and>
            us_total_points row =
              (case fst (select_user_statistics uid s) of
                 None \<Rightarrow> 0 | Some st \<Rightarrow> us_total_points st) + 1 \<and>
            us_divine_count row =
              (case fst (select_user_statistics uid s) of
                 None \<Rightarrow> 0 | Some st \<Rightarrow> us_divine_count st) \<and>
            us_reality_count row =
              (case fst (select_user_statistics uid s) of
                 None \<Rightarrow> 0 | Some st \<Rightarrow> us_reality_count st)"
      if "spin_fits (fst (select_user_statistics uid s)) t (score b)"
      using recorded_spin_statistics [OF assms(11) tab that, of e] assms(6,7)
      by (auto simp: s' points_def divineIncrement_def realityIncrement_def)
    from r ins upd ledger sent stored show ?thesis by blast
  qed
  from absent present show ?thesis by blast
qed

theorem other_type_scored_as_void_witness:
  "status (fst (track_result sample_env (spin (Some ''BONUS'') (Some ''sakura'') (Some 5))
      sample_state)) = 404 \<and>
   status (fst (track_result sample_env (spin (Some ''BONUS'') (Some ''anko'') (Some 5))
      sample_state)) = 200 \<and>
   (\<exists>row. filter (\<lambda>c. uc_user_id c = 7 \<and> uc_divine_word_id c = 1)
        (user_collections (db (snd (track_result sample_env
           (spin (Some ''BONUS'') (Some ''anko'') (Some 5)) sample_state)))) = [row] \<and>
      uc_found_count row = 1) \<and>
   (\<exists>row. fst (select_user_statistics 7 (snd (track_result sample_env
        (spin (Some ''BONUS'') (Some ''anko'') (Some 5)) sample_state))) = Some row \<and>
      us_total_points row = 1 \<and> us_divine_count row = 0 \<and> us_reality_count row = 0) \<and>
   (\<exists>u. filter (\<lambda>c. uc_user_id c = 7 \<and> uc_divine_word_id c = 1)
        (user_collections (db (snd (track_result sample_env
           (spin (Some ''BONUS'') (Some ''anko'') (Some 5)) played_state)))) =
      [\<lparr>uc_id = 100, uc_user_id = 7, uc_divine_word_id = 1, uc_found_count = 2,
        uc_first_found_at = 1000, uc_updated_at = u\<rparr>]) \<and>
   (\<exists>row. fst (select_user_statistics 7 (snd (track_result sample_env
        (spin (Some ''BONUS'') (Some ''anko'') (Some 5)) played_state))) = Some row \<and>
      us_total_points row = 21 \<and> us_divine_count row = 1 \<and> us_reality_count row = 0)"
proof -
  let ?anko = "\<lparr>dw_id = 1, dw_word = ''anko'', dw_rarity = ''SSR''\<rparr>"
  let ?req = "spin (Some ''BONUS'') (Some ''anko'') (Some 5)"
  have absent: "filter (\<lambda>d. dw_word d = ''sakura'') (divine_words (db sample_state)) = []"
    by (simp add: sample_state_def)
  have present: "filter (\<lambda>d. dw_word d = ''anko'') (divine_words (db sample_state)) = [?anko]"
    by (simp add: sample_state_def)
  have present2: "filter (\<lambda>d. dw_word d = ''anko'') (divine_words (db played_state)) = [?anko]"
    by (simp add: played_state_def sample_state_def)
  have new: "filter (\<lambda>c. uc_user_id c = 7 \<and> uc_divine_word_id c = dw_id ?anko)
      (user_collections (db sample_state)) = []"
    by (simp add: sample_state_def)
  have old: "filter (\<lambda>c. uc_user_id c = 7 \<and> uc_divine_word_id c = dw_id ?anko)
      (user_collections (db played_state)) =
      [\<lparr>uc_id = 100, uc_user_id = 7, uc_divine_word_id = 1, uc_found_count = 1,
        uc_first_found_at = 1000, uc_updated_at = 1001\<rparr>]"
    by (simp add: played_state_def)
  have fits: "spin_fits (fst (select_user_statistics 7 sample_state)) ''BONUS'' (Some 5)"
    by (simp add: eval_defs)
  have fits2: "spin_fits (fst (select_user_statistics 7 played_state)) ''BONUS'' (Some 5)"
    by (simp add: eval_defs)
  from other_type_scored_as_void [where t = "''BONUS''" and w = "''sakura''"
      and req = "spin (Some ''BONUS'') (Some ''sakura'') (Some 5)",
      OF sample_post sample_gate sample_body _ _ _ _ _ _ _
      sample_statistics_unique surjective_pairing, simplified] absent
  have 1: "status (fst (track_result sample_env (spin (Some ''BONUS'') (Some ''sakura'') (Some 5))
      sample_state)) = 404"
    by simp
  note fresh = other_type_scored_as_void [where t = "''BONUS''" and w = "''anko''"
      and req = ?req and s = sample_state,
      OF sample_post sample_gate sample_body _ _ _ _ _ _ _
      sample_statistics_unique surjective_pairing, simplified,
      THEN conjunct2, THEN spec, THEN mp, OF present]
  from fresh new fits
  have 2: "status (fst (track_result sample_env ?req sample_state)) = 200 \<and>
   (\<exists>row. filter (\<lambda>c. uc_user_id c = 7 \<and> uc_divine_word_id c = 1)
        (user_collections (db (snd (track_result sample_env ?req sample_state)))) = [row] \<and>
      uc_found_count row = 1) \<and>
   (\<exists>row. fst (select_user_statistics 7 (snd (track_result sample_env ?req
        sample_state))) = Some row \<and>
      us_total_points row = 1 \<and> us_divine_count row = 0 \<and> us_reality_count row = 0)"
    by (simp add: fst_select_user_statistics sample_state_def) blast
  note again = other_type_scored_as_void [where t = "''BONUS''" and w = "''anko''"
      and req = ?req and s = played_state,
      OF sample_post sample_gate sample_body _ _ _ _ _ _ _
      played_statistics_unique surjective_pairing, simplified,
      THEN conjunct2, THEN spec, THEN mp, OF present2]
  from again old fits2
  have 3: "(\<exists>u. filter (\<lambda>c. uc_user_id c = 7 \<and> uc_divine_word_id c = 1)
        (user_collections (db (snd (track_result sample_env ?req played_state)))) =
      [\<lparr>uc_id = 100, uc_user_id = 7, uc_divine_word_id = 1, uc_found_count = 2,
        uc_first_found_at = 1000, uc_updated_at = u\<rparr>]) \<and>
   (\<exists>row. fst (select_user_statistics 7 (snd (track_result sample_env ?req
        played_state))) = Some row \<and>
      us_total_points row = 21 \<and> us_divine_count row = 1 \<and> us_reality_count row = 0)"
    by (simp add: fst_select_user_statistics played_state_def)
  from 1 2 3 show ?thesis by simp
qed

end
